theory Spec2Isabelle
  imports Main "HOL-Library.Finite_Map"
begin

section \<open>Data model\<close>

text \<open>
  The two structs of \<^verbatim>\<open>main.go\<close> (lines 10-26). Both have fields called
  \<^verbatim>\<open>ID\<close> and \<^verbatim>\<open>SecretCode\<close>; they are told apart by the
  record's name (\<open>Complaint.ID\<close>, \<open>User.ID\<close>). \<^verbatim>\<open>Severity\<close> is a Go
  \<^verbatim>\<open>int\<close>: an integer that the decoder keeps within 64 bits. A slice is a list
  (a nil slice and an empty one are both \<open>[]\<close>).
\<close>

record Complaint =
  ID :: string
  Title :: string
  Summary :: string
  Severity :: int
  Resolved :: bool
  SecretCode :: string

record User =
  ID :: string
  SecretCode :: string
  Name :: string
  Email :: string
  Complaints :: "Complaint list"

text \<open>
  The package-level tables \<^verbatim>\<open>users\<close> and \<^verbatim>\<open>complaints\<close> (lines 30-32),
  Go maps keyed by strings: finite maps. Every handler holds the mutex \<^verbatim>\<open>mu\<close>
  from its first statement to its return, so a handler is one atomic function on the store.
\<close>

record store =
  users :: "(string, User) fmap"
  complaints :: "(string, Complaint) fmap"

definition emptyStore :: store where
  "emptyStore = \<lparr>users = fmempty, complaints = fmempty\<rparr>"

text \<open>The zero values that \<^verbatim>\<open>var newComplaint Complaint\<close> and \<^verbatim>\<open>var newUser User\<close> declare.\<close>

definition zeroComplaint :: Complaint where
  "zeroComplaint =
     \<lparr>Complaint.ID = [], Title = [], Summary = [], Severity = 0, Resolved = False,
      Complaint.SecretCode = []\<rparr>"

definition zeroUser :: User where
  "zeroUser = \<lparr>User.ID = [], User.SecretCode = [], Name = [], Email = [], Complaints = []\<rparr>"

section \<open>The JSON decoder the handlers call\<close>

text \<open>
  A request body is read through \<^verbatim>\<open>json.NewDecoder(r.Body).Decode(&v)\<close>. The
  body is a reader: what one decoder has read from it is gone for the next one. A body is
  modelled as the list of reads it delivers, each read being the JSON values that arrive
  in it. The bodies modelled are syntactically well-formed JSON texts whose number
  literals are integers, and no value is cut by the end of a read.
  \<open>JString\<close> and the keys of \<open>JObject\<close> hold the bytes of the unquoted string.
\<close>

datatype json =
    JNull
  | JBool bool
  | JNumber int
  | JString string
  | JArray "json list"
  | JObject "(string \<times> json) list"

type_synonym body = "json list list"

datatype json_error = EOF | UnmarshalTypeError

text \<open>
  A fresh decoder fills its buffer by reads from the body until the buffer holds a
  complete value; it returns the first value. Whatever else was read stays in the buffer
  of that decoder and is lost with it: the body keeps only the reads not yet made.
  A body that ends before any value gives \<^verbatim>\<open>io.EOF\<close>.
\<close>

fun readValue :: "body \<Rightarrow> json option \<times> body" where
  "readValue [] = (None, [])"
| "readValue ([] # rs) = readValue rs"
| "readValue ((v # buffered) # rs) = (Some v, rs)"

definition Decode ::
  "(json \<Rightarrow> 'a \<Rightarrow> json_error + 'a) \<Rightarrow> 'a \<Rightarrow> body \<Rightarrow> (json_error + 'a) \<times> body" where
  "Decode into zero r =
     (case readValue r of
        (None, r') \<Rightarrow> (Inl EOF, r')
      | (Some v, r') \<Rightarrow> (into v zero, r'))"

text \<open>
  Decoding a value into a Go variable. \<^verbatim>\<open>null\<close> leaves the variable as it is; a
  value of the wrong kind is an \<^verbatim>\<open>UnmarshalTypeError\<close>, which
  \<^verbatim>\<open>Decode\<close> returns (the handlers then answer 400 and use nothing of what was
  decoded).
\<close>

definition intoString :: "json \<Rightarrow> string \<Rightarrow> json_error + string" where
  "intoString v old =
     (case v of JString s \<Rightarrow> Inr s | JNull \<Rightarrow> Inr old | _ \<Rightarrow> Inl UnmarshalTypeError)"

definition intoInt :: "json \<Rightarrow> int \<Rightarrow> json_error + int" where
  "intoInt v old =
     (case v of
        JNumber n \<Rightarrow>
          (if - (2 ^ 63) \<le> n \<and> n < 2 ^ 63 then Inr n else Inl UnmarshalTypeError)
      | JNull \<Rightarrow> Inr old
      | _ \<Rightarrow> Inl UnmarshalTypeError)"

definition intoBool :: "json \<Rightarrow> bool \<Rightarrow> json_error + bool" where
  "intoBool v old =
     (case v of JBool b \<Rightarrow> Inr b | JNull \<Rightarrow> Inr old | _ \<Rightarrow> Inl UnmarshalTypeError)"

definition andThen :: "'e + 'a \<Rightarrow> ('a \<Rightarrow> 'e + 'b) \<Rightarrow> 'e + 'b" where
  "andThen r f = (case r of Inl e \<Rightarrow> Inl e | Inr x \<Rightarrow> f x)"

text \<open>
  A key of a JSON object selects the struct field whose name it equals up to letter case.
  The field names here are ASCII. \<^verbatim>\<open>encoding/json\<close> folds case as Unicode does,
  and two letters outside ASCII fold to ASCII ones: U+017F (bytes C5 BF) to S, and U+212A
  (bytes E2 84 AA) to K. \<open>foldName\<close> maps a key to upper case in that sense, byte by
  byte; a key selects a field when both fold to the same string.
\<close>

definition upper :: "char \<Rightarrow> char" where
  "upper c =
     (let n = (of_char c :: nat) in if 97 \<le> n \<and> n \<le> 122 then char_of (n - 32) else c)"

function foldName :: "string \<Rightarrow> string" where
  "foldName [] = []"
| "foldName (c # cs) =
     (if c = CHR 0xC5 \<and> take 1 cs = [CHR 0xBF] then CHR ''S'' # foldName (drop 1 cs)
      else if c = CHR 0xE2 \<and> take 2 cs = [CHR 0x84, CHR 0xAA] then CHR ''K'' # foldName (drop 2 cs)
      else upper c # foldName cs)"
  by pat_completeness auto
termination
  by (relation "measure length") auto

declare foldName.simps [simp del]

text \<open>
  The members of an object are decoded in order, each into the field its key selects; a
  key that selects no field is skipped.
\<close>

fun objectInto ::
  "(string \<Rightarrow> json \<Rightarrow> 'a \<Rightarrow> json_error + 'a) \<Rightarrow> (string \<times> json) list \<Rightarrow> 'a \<Rightarrow> json_error + 'a" where
  "objectInto field [] x = Inr x"
| "objectInto field ((k, v) # kvs) x = andThen (field k v x) (objectInto field kvs)"

definition structInto ::
  "(string \<Rightarrow> json \<Rightarrow> 'a \<Rightarrow> json_error + 'a) \<Rightarrow> json \<Rightarrow> 'a \<Rightarrow> json_error + 'a" where
  "structInto field v x =
     (case v of
        JObject kvs \<Rightarrow> objectInto field kvs x
      | JNull \<Rightarrow> Inr x
      | _ \<Rightarrow> Inl UnmarshalTypeError)"

text \<open>
  \<^verbatim>\<open>Complaint\<close> (lines 19-26): tags \<^verbatim>\<open>id\<close>, \<^verbatim>\<open>title\<close>,
  \<^verbatim>\<open>summary\<close>, \<^verbatim>\<open>severity\<close>, \<^verbatim>\<open>resolved\<close>; the field
  \<^verbatim>\<open>SecretCode\<close> has no tag and goes by its own name.
\<close>

definition complaintField :: "string \<Rightarrow> json \<Rightarrow> Complaint \<Rightarrow> json_error + Complaint" where
  "complaintField k v c =
     (let n = foldName k in
      if n = foldName ''id'' then
        andThen (intoString v (Complaint.ID c)) (\<lambda>s. Inr (c\<lparr>Complaint.ID := s\<rparr>))
      else if n = foldName ''title'' then
        andThen (intoString v (Title c)) (\<lambda>s. Inr (c\<lparr>Title := s\<rparr>))
      else if n = foldName ''summary'' then
        andThen (intoString v (Summary c)) (\<lambda>s. Inr (c\<lparr>Summary := s\<rparr>))
      else if n = foldName ''severity'' then
        andThen (intoInt v (Severity c)) (\<lambda>i. Inr (c\<lparr>Severity := i\<rparr>))
      else if n = foldName ''resolved'' then
        andThen (intoBool v (Resolved c)) (\<lambda>b. Inr (c\<lparr>Resolved := b\<rparr>))
      else if n = foldName ''SecretCode'' then
        andThen (intoString v (Complaint.SecretCode c)) (\<lambda>s. Inr (c\<lparr>Complaint.SecretCode := s\<rparr>))
      else Inr c)"

definition intoComplaint :: "json \<Rightarrow> Complaint \<Rightarrow> json_error + Complaint" where
  "intoComplaint = structInto complaintField"

text \<open>
  The slice \<^verbatim>\<open>Complaints []Complaint\<close> of a user: an array is decoded element by
  element. \<^verbatim>\<open>registerHandler\<close> replaces the decoded slice by an empty one before
  anything reads it, so only whether the array decodes matters.
\<close>

fun arrayInto :: "json list \<Rightarrow> json_error + Complaint list" where
  "arrayInto [] = Inr []"
| "arrayInto (v # vs) =
     andThen (intoComplaint v zeroComplaint)
       (\<lambda>c. andThen (arrayInto vs) (\<lambda>cs. Inr (c # cs)))"

definition intoComplaints :: "json \<Rightarrow> Complaint list \<Rightarrow> json_error + Complaint list" where
  "intoComplaints v old =
     (case v of JArray vs \<Rightarrow> arrayInto vs | JNull \<Rightarrow> Inr [] | _ \<Rightarrow> Inl UnmarshalTypeError)"

text \<open>
  \<^verbatim>\<open>User\<close> (lines 11-17): tags \<^verbatim>\<open>id\<close>, \<^verbatim>\<open>secretCode\<close>,
  \<^verbatim>\<open>name\<close>, \<^verbatim>\<open>email\<close>, \<^verbatim>\<open>complaints\<close>.
\<close>

definition userField :: "string \<Rightarrow> json \<Rightarrow> User \<Rightarrow> json_error + User" where
  "userField k v u =
     (let n = foldName k in
      if n = foldName ''id'' then
        andThen (intoString v (User.ID u)) (\<lambda>s. Inr (u\<lparr>User.ID := s\<rparr>))
      else if n = foldName ''secretCode'' then
        andThen (intoString v (User.SecretCode u)) (\<lambda>s. Inr (u\<lparr>User.SecretCode := s\<rparr>))
      else if n = foldName ''name'' then
        andThen (intoString v (Name u)) (\<lambda>s. Inr (u\<lparr>Name := s\<rparr>))
      else if n = foldName ''email'' then
        andThen (intoString v (Email u)) (\<lambda>s. Inr (u\<lparr>Email := s\<rparr>))
      else if n = foldName ''complaints'' then
        andThen (intoComplaints v (Complaints u)) (\<lambda>cs. Inr (u\<lparr>Complaints := cs\<rparr>))
      else Inr u)"

definition intoUser :: "json \<Rightarrow> User \<Rightarrow> json_error + User" where
  "intoUser = structInto userField"

text \<open>
  The anonymous structs \<^verbatim>\<open>struct { SecretCode string `json:"secretCode"` }\<close> and
  \<^verbatim>\<open>struct { ID string `json:"id"` }\<close> have one string field each: they are that
  string.
\<close>

definition credentialsField :: "string \<Rightarrow> json \<Rightarrow> string \<Rightarrow> json_error + string" where
  "credentialsField k v s = (if foldName k = foldName ''secretCode'' then intoString v s else Inr s)"

definition intoCredentials :: "json \<Rightarrow> string \<Rightarrow> json_error + string" where
  "intoCredentials = structInto credentialsField"

definition idField :: "string \<Rightarrow> json \<Rightarrow> string \<Rightarrow> json_error + string" where
  "idField k v s = (if foldName k = foldName ''id'' then intoString v s else Inr s)"

definition intoID :: "json \<Rightarrow> string \<Rightarrow> json_error + string" where
  "intoID = structInto idField"

section \<open>Responses\<close>

text \<open>
  What a handler leaves in the \<^verbatim>\<open>http.ResponseWriter\<close>: the status code and
  the value it encoded as the body, if any. A handler that encodes a body without calling
  \<^verbatim>\<open>WriteHeader\<close> answers 200. The text of a decoding error is
  \<^verbatim>\<open>err.Error()\<close>, kept as the error itself.
\<close>

datatype message = Text string | ErrorOf json_error

datatype payload =
    NoBody
  | ErrorBody message
  | UserBody User
  | ComplaintBody Complaint
  | ComplaintsBody "Complaint list"

record response =
  status :: nat
  payload :: payload

abbreviation StatusOK :: nat where "StatusOK \<equiv> 200"
abbreviation StatusCreated :: nat where "StatusCreated \<equiv> 201"
abbreviation StatusNoContent :: nat where "StatusNoContent \<equiv> 204"
abbreviation StatusBadRequest :: nat where "StatusBadRequest \<equiv> 400"
abbreviation StatusUnauthorized :: nat where "StatusUnauthorized \<equiv> 401"
abbreviation StatusNotFound :: nat where "StatusNotFound \<equiv> 404"

text \<open>\<^verbatim>\<open>writeError\<close> (lines 47-52) writes the status and the body \<^verbatim>\<open>{"error": errMsg}\<close>.\<close>

definition writeError :: "message \<Rightarrow> nat \<Rightarrow> response" where
  "writeError errMsg statusCode = \<lparr>status = statusCode, payload = ErrorBody errMsg\<rparr>"

section \<open>Identifiers\<close>

text \<open>
  \<^verbatim>\<open>fmt.Sprintf("%d", n)\<close> for the numbers \<^verbatim>\<open>len(complaints)+1\<close>, which are
  positive: the decimal digits, most significant first.
\<close>

definition digit :: "nat \<Rightarrow> char" where
  "digit d = ''0123456789'' ! d"

function Sprintf_d :: "nat \<Rightarrow> string" where
  "Sprintf_d n = (if n < 10 then [digit n] else Sprintf_d (n div 10) @ [digit (n mod 10)])"
  by pat_completeness auto
termination
  by (relation "measure id") auto

declare Sprintf_d.simps [simp del]

text \<open>\<^verbatim>\<open>generateUniqueID\<close> (lines 54-56).\<close>

definition generateUniqueID :: "store \<Rightarrow> string" where
  "generateUniqueID s = Sprintf_d (fcard (fmdom (complaints s)) + 1)"

section \<open>The handlers\<close>

text \<open>\<^verbatim>\<open>loginHandler\<close> (lines 58-78).\<close>

definition loginHandler :: "body \<Rightarrow> store \<Rightarrow> response \<times> store" where
  "loginHandler r s =
     (case Decode intoCredentials [] r of
        (Inl err, _) \<Rightarrow> (writeError (ErrorOf err) StatusBadRequest, s)
      | (Inr credentials, _) \<Rightarrow>
          (case fmlookup (users s) credentials of
             None \<Rightarrow> (writeError (Text ''User not found'') StatusNotFound, s)
           | Some user \<Rightarrow> (\<lparr>status = StatusOK, payload = UserBody user\<rparr>, s)))"

text \<open>\<^verbatim>\<open>registerHandler\<close> (lines 80-103).\<close>

definition registerHandler :: "body \<Rightarrow> store \<Rightarrow> response \<times> store" where
  "registerHandler r s =
     (case Decode intoUser zeroUser r of
        (Inl err, _) \<Rightarrow> (writeError (ErrorOf err) StatusBadRequest, s)
      | (Inr decoded, _) \<Rightarrow>
          (case fmlookup (users s) (User.SecretCode decoded) of
             Some _ \<Rightarrow> (writeError (Text ''Secret code already in use'') StatusBadRequest, s)
           | None \<Rightarrow>
               (let newUser = decoded\<lparr>User.ID := generateUniqueID s, Complaints := []\<rparr>
                in (\<lparr>status = StatusOK, payload = UserBody newUser\<rparr>,
                    s\<lparr>users := fmupd (User.SecretCode newUser) newUser (users s)\<rparr>))))"

text \<open>\<^verbatim>\<open>submitComplaintHandler\<close> (lines 105-131).\<close>

definition submitComplaintHandler :: "body \<Rightarrow> store \<Rightarrow> response \<times> store" where
  "submitComplaintHandler r s =
     (case Decode intoComplaint zeroComplaint r of
        (Inl err, _) \<Rightarrow> (writeError (ErrorOf err) StatusBadRequest, s)
      | (Inr decoded, _) \<Rightarrow>
          (case fmlookup (users s) (Complaint.SecretCode decoded) of
             None \<Rightarrow> (writeError (Text ''User not found'') StatusNotFound, s)
           | Some user \<Rightarrow>
               (let newComplaint = decoded\<lparr>Complaint.ID := generateUniqueID s\<rparr>;
                    complaints' = fmupd (Complaint.ID newComplaint) newComplaint (complaints s);
                    user' = user\<lparr>Complaints := Complaints user @ [newComplaint]\<rparr>
                in (\<lparr>status = StatusCreated, payload = NoBody\<rparr>,
                    s\<lparr>users := fmupd (Complaint.SecretCode newComplaint) user' (users s),
                      complaints := complaints'\<rparr>))))"

text \<open>\<^verbatim>\<open>getAllComplaintsForUserHandler\<close> (lines 133-155).\<close>

definition getAllComplaintsForUserHandler :: "body \<Rightarrow> store \<Rightarrow> response \<times> store" where
  "getAllComplaintsForUserHandler r s =
     (case Decode intoCredentials [] r of
        (Inl err, _) \<Rightarrow> (writeError (ErrorOf err) StatusBadRequest, s)
      | (Inr user, _) \<Rightarrow>
          (case fmlookup (users s) user of
             None \<Rightarrow> (writeError (Text ''User not found'') StatusNotFound, s)
           | Some userDetails \<Rightarrow>
               (\<lparr>status = StatusOK, payload = ComplaintsBody (Complaints userDetails)\<rparr>, s)))"

text \<open>
  \<^verbatim>\<open>getAllComplaintsForAdminHandler\<close> (lines 157-182). Go leaves the order in
  which \<^verbatim>\<open>range\<close> visits a map open: the order the runtime takes is the
  argument \<open>order\<close>, a list of the keys of \<^verbatim>\<open>users\<close>, each once.
\<close>

definition iterationOrder :: "'k list \<Rightarrow> ('k, 'v) fmap \<Rightarrow> bool" where
  "iterationOrder order m \<longleftrightarrow> distinct order \<and> fset_of_list order = fmdom m"

definition rangeValues :: "'k list \<Rightarrow> ('k, 'v) fmap \<Rightarrow> 'v list" where
  "rangeValues order m =
     concat (map (\<lambda>k. case fmlookup m k of None \<Rightarrow> [] | Some v \<Rightarrow> [v]) order)"

definition getAllComplaintsForAdminHandler ::
  "string list \<Rightarrow> body \<Rightarrow> store \<Rightarrow> response \<times> store" where
  "getAllComplaintsForAdminHandler order r s =
     (case Decode intoCredentials [] r of
        (Inl err, _) \<Rightarrow> (writeError (ErrorOf err) StatusBadRequest, s)
      | (Inr adminCredentials, _) \<Rightarrow>
          (if adminCredentials \<noteq> ''admin'' then
             (writeError (Text ''Unauthorized'') StatusUnauthorized, s)
           else
             (let allComplaints =
                    foldl (\<lambda>allComplaints user. allComplaints @ Complaints user) []
                      (rangeValues order (users s))
              in (\<lparr>status = StatusOK, payload = ComplaintsBody allComplaints\<rparr>, s))))"

text \<open>\<^verbatim>\<open>viewComplaintHandler\<close> (lines 184-210).\<close>

definition viewComplaintHandler :: "body \<Rightarrow> store \<Rightarrow> response \<times> store" where
  "viewComplaintHandler r s =
     (case Decode intoID [] r of
        (Inl err, _) \<Rightarrow> (writeError (ErrorOf err) StatusBadRequest, s)
      | (Inr complaint, _) \<Rightarrow>
          (case fmlookup (complaints s) complaint of
             None \<Rightarrow> (writeError (Text ''Complaint not found'') StatusNotFound, s)
           | Some complaintDetails \<Rightarrow>
               (case fmlookup (users s) (Complaint.SecretCode complaintDetails) of
                  None \<Rightarrow> (writeError (Text ''User not found'') StatusNotFound, s)
                | Some _ \<Rightarrow>
                    (\<lparr>status = StatusOK, payload = ComplaintBody complaintDetails\<rparr>, s))))"

text \<open>
  \<^verbatim>\<open>resolveComplaintHandler\<close> (lines 212-250). It makes two decoders, one after
  the other, on the same \<^verbatim>\<open>r.Body\<close>: the second reads what the first has left.
\<close>

definition resolveComplaintHandler :: "body \<Rightarrow> store \<Rightarrow> response \<times> store" where
  "resolveComplaintHandler r s =
     (case Decode intoID [] r of
        (Inl err, _) \<Rightarrow> (writeError (ErrorOf err) StatusBadRequest, s)
      | (Inr complaint, r') \<Rightarrow>
          (case Decode intoCredentials [] r' of
             (Inl err, _) \<Rightarrow> (writeError (ErrorOf err) StatusBadRequest, s)
           | (Inr adminCredentials, _) \<Rightarrow>
               (if adminCredentials \<noteq> ''admin'' then
                  (writeError (Text ''Unauthorized'') StatusUnauthorized, s)
                else
                  (case fmlookup (complaints s) complaint of
                     None \<Rightarrow> (writeError (Text ''Complaint not found'') StatusNotFound, s)
                   | Some complaintDetails \<Rightarrow>
                       (\<lparr>status = StatusNoContent, payload = NoBody\<rparr>,
                        s\<lparr>complaints :=
                            fmupd complaint (complaintDetails\<lparr>Resolved := True\<rparr>) (complaints s)\<rparr>)))))"

section \<open>The server: seven routes on one store\<close>

text \<open>The routes that \<^verbatim>\<open>main\<close> registers (lines 35-41), each with its request body.\<close>

datatype call =
    Login body
  | Register body
  | SubmitComplaint body
  | GetAllComplaintsForUser body
  | GetAllComplaintsForAdmin "string list" body
  | ViewComplaint body
  | ResolveComplaint body

fun serve :: "call \<Rightarrow> store \<Rightarrow> response \<times> store" where
  "serve (Login r) s = loginHandler r s"
| "serve (Register r) s = registerHandler r s"
| "serve (SubmitComplaint r) s = submitComplaintHandler r s"
| "serve (GetAllComplaintsForUser r) s = getAllComplaintsForUserHandler r s"
| "serve (GetAllComplaintsForAdmin order r) s = getAllComplaintsForAdminHandler order r s"
| "serve (ViewComplaint r) s = viewComplaintHandler r s"
| "serve (ResolveComplaint r) s = resolveComplaintHandler r s"

text \<open>The store after a sequence of requests, served one after the other.\<close>

fun serveAll :: "call list \<Rightarrow> store \<Rightarrow> store" where
  "serveAll [] s = s"
| "serveAll (c # cs) s = serveAll cs (snd (serve c s))"

text \<open>The stores the server can be in: it starts with both tables empty.\<close>

inductive reachable :: "store \<Rightarrow> bool" where
  start: "reachable emptyStore"
| step: "reachable s \<Longrightarrow> reachable (snd (serve c s))"

section \<open>What each handler does on a decoded request\<close>

lemma registerHandler_existing:
  assumes "fst (Decode intoUser zeroUser r) = Inr u"
    and "fmlookup (users s) (User.SecretCode u) = Some x"
  shows "registerHandler r s =
           (\<lparr>status = StatusBadRequest, payload = ErrorBody (Text ''Secret code already in use'')\<rparr>, s)"
  using assms
  by (cases "Decode intoUser zeroUser r") (simp add: registerHandler_def writeError_def)

lemma registerHandler_new:
  assumes "fst (Decode intoUser zeroUser r) = Inr u"
    and "fmlookup (users s) (User.SecretCode u) = None"
  shows "registerHandler r s =
           (\<lparr>status = StatusOK,
             payload = UserBody (u\<lparr>User.ID := generateUniqueID s, Complaints := []\<rparr>)\<rparr>,
            s\<lparr>users := fmupd (User.SecretCode u)
                        (u\<lparr>User.ID := generateUniqueID s, Complaints := []\<rparr>) (users s)\<rparr>)"
  using assms
  by (cases "Decode intoUser zeroUser r") (simp add: registerHandler_def Let_def)

lemma submitComplaintHandler_unknown:
  assumes "fst (Decode intoComplaint zeroComplaint r) = Inr c"
    and "fmlookup (users s) (Complaint.SecretCode c) = None"
  shows "submitComplaintHandler r s =
           (\<lparr>status = StatusNotFound, payload = ErrorBody (Text ''User not found'')\<rparr>, s)"
  using assms
  by (cases "Decode intoComplaint zeroComplaint r")
    (simp add: submitComplaintHandler_def writeError_def)

lemma submitComplaintHandler_known:
  assumes "fst (Decode intoComplaint zeroComplaint r) = Inr c"
    and "fmlookup (users s) (Complaint.SecretCode c) = Some owner"
  shows "submitComplaintHandler r s =
           (\<lparr>status = StatusCreated, payload = NoBody\<rparr>,
            s\<lparr>users := fmupd (Complaint.SecretCode c)
                        (owner\<lparr>Complaints :=
                           Complaints owner @ [c\<lparr>Complaint.ID := generateUniqueID s\<rparr>]\<rparr>)
                        (users s),
              complaints := fmupd (generateUniqueID s) (c\<lparr>Complaint.ID := generateUniqueID s\<rparr>)
                        (complaints s)\<rparr>)"
  using assms
  by (cases "Decode intoComplaint zeroComplaint r") (simp add: submitComplaintHandler_def Let_def)

lemma loginHandler_found:
  assumes "fst (Decode intoCredentials [] r) = Inr code"
    and "fmlookup (users s) code = Some u"
  shows "loginHandler r s = (\<lparr>status = StatusOK, payload = UserBody u\<rparr>, s)"
  using assms by (cases "Decode intoCredentials [] r") (simp add: loginHandler_def)

lemma viewComplaintHandler_found:
  assumes "fst (Decode intoID [] r) = Inr i"
    and "fmlookup (complaints s) i = Some c"
    and "fmlookup (users s) (Complaint.SecretCode c) = Some owner"
  shows "viewComplaintHandler r s = (\<lparr>status = StatusOK, payload = ComplaintBody c\<rparr>, s)"
  using assms by (cases "Decode intoID [] r") (simp add: viewComplaintHandler_def)

section \<open>Submitting a complaint under an unknown secret code\<close>

text \<open>
  C6: in every store, a complaint submission whose decoded secret code keys no user is
  answered 404 "User not found", and the store (the users table and the complaints
  table) is the one before the call.
\<close>

theorem submitComplaint_unknown_user:
  assumes "fst (Decode intoComplaint zeroComplaint r) = Inr c"
    and "fmlookup (users s) (Complaint.SecretCode c) = None"
  shows "submitComplaintHandler r s =
           (\<lparr>status = 404, payload = ErrorBody (Text ''User not found'')\<rparr>, s)"
  using assms by (rule submitComplaintHandler_unknown)

theorem submitComplaint_unknown_user_witness:
  "fst (Decode intoComplaint zeroComplaint
          [[JObject [(''title'', JString ''noise''), (''severity'', JNumber 3),
                     (''SecretCode'', JString ''nobody'')]]]) =
     Inr \<lparr>Complaint.ID = [], Title = ''noise'', Summary = [], Severity = 3, Resolved = False,
          Complaint.SecretCode = ''nobody''\<rparr>
   \<and> fmlookup (users \<lparr>users = fmupd ''c1'' \<lparr>User.ID = ''1'', User.SecretCode = ''c1'',
                     Name = ''A'', Email = ''a@x'', Complaints = []\<rparr> fmempty,
                   complaints = fmempty\<rparr>) ''nobody'' = None
   \<and> submitComplaintHandler
        [[JObject [(''title'', JString ''noise''), (''severity'', JNumber 3),
                   (''SecretCode'', JString ''nobody'')]]]
        \<lparr>users = fmupd ''c1'' \<lparr>User.ID = ''1'', User.SecretCode = ''c1'',
                     Name = ''A'', Email = ''a@x'', Complaints = []\<rparr> fmempty,
         complaints = fmempty\<rparr> =
      (\<lparr>status = 404, payload = ErrorBody (Text ''User not found'')\<rparr>,
       \<lparr>users = fmupd ''c1'' \<lparr>User.ID = ''1'', User.SecretCode = ''c1'',
                     Name = ''A'', Email = ''a@x'', Complaints = []\<rparr> fmempty,
        complaints = fmempty\<rparr>)"
proof -
  have dec: "fst (Decode intoComplaint zeroComplaint
          [[JObject [(''title'', JString ''noise''), (''severity'', JNumber 3),
                     (''SecretCode'', JString ''nobody'')]]]) =
     Inr \<lparr>Complaint.ID = [], Title = ''noise'', Summary = [], Severity = 3, Resolved = False,
          Complaint.SecretCode = ''nobody''\<rparr>"
    by code_simp
  have absent: "fmlookup (users \<lparr>users = fmupd ''c1'' \<lparr>User.ID = ''1'', User.SecretCode = ''c1'',
                     Name = ''A'', Email = ''a@x'', Complaints = []\<rparr> fmempty,
                   complaints = fmempty\<rparr>)
                  (Complaint.SecretCode \<lparr>Complaint.ID = [], Title = ''noise'', Summary = [],
                     Severity = 3, Resolved = False, Complaint.SecretCode = ''nobody''\<rparr>) = None"
    by simp
  from submitComplaint_unknown_user [OF dec absent] dec absent show ?thesis
    by simp
qed

section \<open>Resolving a complaint: two decoders on one body\<close>

text \<open>
  A body that holds one JSON value in all is used up by the first decoder, however the
  reads cut it: the second decoder finds the end of the body.
\<close>

lemma readValue_one_value:
  "concat r = [v] \<Longrightarrow> \<exists>r'. readValue r = (Some v, r') \<and> concat r' = []"
  by (induction r rule: readValue.induct) (auto simp: Cons_eq_append_conv)

lemma readValue_no_value: "concat r = [] \<Longrightarrow> readValue r = (None, [])"
  by (induction r rule: readValue.induct) auto

lemma Decode_no_value: "concat r = [] \<Longrightarrow> Decode into zero r = (Inl EOF, [])"
  by (simp add: Decode_def readValue_no_value)

lemma resolveComplaintHandler_one_value:
  assumes "concat r = [v]"
  shows "status (fst (resolveComplaintHandler r s)) = StatusBadRequest
         \<and> snd (resolveComplaintHandler r s) = s"
proof -
  from assms obtain r' where rv: "readValue r = (Some v, r')" and r': "concat r' = []"
    using readValue_one_value by blast
  have d1: "Decode intoID [] r = (intoID v [], r')"
    by (simp add: Decode_def rv)
  show ?thesis
    by (cases "intoID v []")
      (simp_all add: resolveComplaintHandler_def d1 Decode_no_value [OF r'] writeError_def)
qed

text \<open>
  C3: a resolveComplaint request whose body is the single JSON object
  \<^verbatim>\<open>{"id":"1","secretCode":"admin"}\<close>, with complaint "1" in the complaints table, is
  answered 400 with the error \<^verbatim>\<open>EOF\<close> of the second decoder, not 204, and the
  complaint stays unresolved.
\<close>

theorem resolveComplaint_same_body_bad_request:
  "resolveComplaintHandler
     [[JObject [(''id'', JString ''1''), (''secretCode'', JString ''admin'')]]]
     \<lparr>users = fmupd ''c1'' \<lparr>User.ID = ''1'', User.SecretCode = ''c1'', Name = ''A'',
                 Email = ''a@x'',
                 Complaints = [\<lparr>Complaint.ID = ''1'', Title = ''t'', Summary = ''s'',
                   Severity = 5, Resolved = False, Complaint.SecretCode = ''c1''\<rparr>]\<rparr> fmempty,
      complaints = fmupd ''1'' \<lparr>Complaint.ID = ''1'', Title = ''t'', Summary = ''s'',
                   Severity = 5, Resolved = False, Complaint.SecretCode = ''c1''\<rparr> fmempty\<rparr>
   = (\<lparr>status = 400, payload = ErrorBody (ErrorOf EOF)\<rparr>,
      \<lparr>users = fmupd ''c1'' \<lparr>User.ID = ''1'', User.SecretCode = ''c1'', Name = ''A'',
                 Email = ''a@x'',
                 Complaints = [\<lparr>Complaint.ID = ''1'', Title = ''t'', Summary = ''s'',
                   Severity = 5, Resolved = False, Complaint.SecretCode = ''c1''\<rparr>]\<rparr> fmempty,
      complaints = fmupd ''1'' \<lparr>Complaint.ID = ''1'', Title = ''t'', Summary = ''s'',
                   Severity = 5, Resolved = False, Complaint.SecretCode = ''c1''\<rparr> fmempty\<rparr>)"
proof -
  have first: "Decode intoID []
      [[JObject [(''id'', JString ''1''), (''secretCode'', JString ''admin'')]]] = (Inr ''1'', [])"
    by code_simp
  have second: "Decode intoCredentials [] [] = (Inl EOF, [])"
    by (simp add: Decode_def)
  show ?thesis
    by (simp add: resolveComplaintHandler_def first second writeError_def)
qed

section \<open>What each handler does to the store\<close>

text \<open>Four handlers only read the tables.\<close>

lemma loginHandler_store: "snd (loginHandler r s) = s"
  by (cases "Decode intoCredentials [] r")
    (simp add: loginHandler_def split: sum.splits option.splits)

lemma getAllComplaintsForUserHandler_store: "snd (getAllComplaintsForUserHandler r s) = s"
  by (cases "Decode intoCredentials [] r")
    (simp add: getAllComplaintsForUserHandler_def split: sum.splits option.splits)

lemma getAllComplaintsForAdminHandler_store:
  "snd (getAllComplaintsForAdminHandler order r s) = s"
  by (cases "Decode intoCredentials [] r")
    (simp add: getAllComplaintsForAdminHandler_def Let_def split: sum.splits)

lemma viewComplaintHandler_store: "snd (viewComplaintHandler r s) = s"
  by (cases "Decode intoID [] r")
    (simp add: viewComplaintHandler_def split: sum.splits option.splits)

text \<open>
  The three others either refuse the request and leave the store alone, or make one
  change: a new user under a free secret code, a new complaint with its copy in the list
  of its owner, or the flag of one complaint of the complaints table.
\<close>

lemma registerHandler_store:
  obtains (refused) "snd (registerHandler r s) = s"
  | (stored) u where "fmlookup (users s) (User.SecretCode u) = None"
      and "snd (registerHandler r s) = s\<lparr>users := fmupd (User.SecretCode u) u (users s)\<rparr>"
proof (cases "Decode intoUser zeroUser r")
  case (Pair res r')
  show ?thesis
  proof (cases res)
    case (Inl e)
    with Pair have "snd (registerHandler r s) = s"
      by (simp add: registerHandler_def)
    then show ?thesis by (rule refused)
  next
    case (Inr decoded)
    show ?thesis
    proof (cases "fmlookup (users s) (User.SecretCode decoded)")
      case (Some x)
      with Pair Inr have "snd (registerHandler r s) = s"
        by (simp add: registerHandler_def)
      then show ?thesis by (rule refused)
    next
      case None
      let ?u = "decoded\<lparr>User.ID := generateUniqueID s, Complaints := []\<rparr>"
      have "fmlookup (users s) (User.SecretCode ?u) = None"
        using None by simp
      moreover have "snd (registerHandler r s) =
          s\<lparr>users := fmupd (User.SecretCode ?u) ?u (users s)\<rparr>"
        using Pair Inr None by (simp add: registerHandler_def Let_def)
      ultimately show ?thesis by (rule stored)
    qed
  qed
qed

lemma submitComplaintHandler_store:
  obtains (refused) "snd (submitComplaintHandler r s) = s"
  | (stored) c owner where "fmlookup (users s) (Complaint.SecretCode c) = Some owner"
      and "snd (submitComplaintHandler r s) =
              s\<lparr>users := fmupd (Complaint.SecretCode c)
                            (owner\<lparr>Complaints := Complaints owner @ [c]\<rparr>) (users s),
                complaints := fmupd (Complaint.ID c) c (complaints s)\<rparr>"
proof (cases "Decode intoComplaint zeroComplaint r")
  case (Pair res r')
  show ?thesis
  proof (cases res)
    case (Inl e)
    with Pair have "snd (submitComplaintHandler r s) = s"
      by (simp add: submitComplaintHandler_def)
    then show ?thesis by (rule refused)
  next
    case (Inr decoded)
    show ?thesis
    proof (cases "fmlookup (users s) (Complaint.SecretCode decoded)")
      case None
      with Pair Inr have "snd (submitComplaintHandler r s) = s"
        by (simp add: submitComplaintHandler_def)
      then show ?thesis by (rule refused)
    next
      case (Some owner)
      let ?c = "decoded\<lparr>Complaint.ID := generateUniqueID s\<rparr>"
      have "fmlookup (users s) (Complaint.SecretCode ?c) = Some owner"
        using Some by simp
      moreover have "snd (submitComplaintHandler r s) =
              s\<lparr>users := fmupd (Complaint.SecretCode ?c)
                            (owner\<lparr>Complaints := Complaints owner @ [?c]\<rparr>) (users s),
                complaints := fmupd (Complaint.ID ?c) ?c (complaints s)\<rparr>"
        using Pair Inr Some by (simp add: submitComplaintHandler_def Let_def)
      ultimately show ?thesis by (rule stored)
    qed
  qed
qed

lemma resolveComplaintHandler_cases:
  obtains (refused) "status (fst (resolveComplaintHandler r s)) \<noteq> StatusNoContent"
      and "snd (resolveComplaintHandler r s) = s"
  | (resolved) i r' c where "Decode intoID [] r = (Inr i, r')"
      and "fst (Decode intoCredentials [] r') = Inr ''admin''"
      and "fmlookup (complaints s) i = Some c"
      and "resolveComplaintHandler r s =
              (\<lparr>status = StatusNoContent, payload = NoBody\<rparr>,
               s\<lparr>complaints := fmupd i (c\<lparr>Resolved := True\<rparr>) (complaints s)\<rparr>)"
proof (cases "Decode intoID [] r")
  case first: (Pair res r')
  show ?thesis
  proof (cases res)
    case (Inl e)
    with first show ?thesis
      by (intro refused) (simp_all add: resolveComplaintHandler_def writeError_def)
  next
    case i: (Inr i)
    show ?thesis
    proof (cases "Decode intoCredentials [] r'")
      case second: (Pair res' r'')
      show ?thesis
      proof (cases res')
        case (Inl e)
        with first i second show ?thesis
          by (intro refused) (simp_all add: resolveComplaintHandler_def writeError_def)
      next
        case (Inr code)
        show ?thesis
        proof (cases "code = ''admin''")
          case False
          with first i second Inr show ?thesis
            by (intro refused) (simp_all add: resolveComplaintHandler_def writeError_def)
        next
          case True
          show ?thesis
          proof (cases "fmlookup (complaints s) i")
            case None
            with first i second Inr True show ?thesis
              by (intro refused) (simp_all add: resolveComplaintHandler_def writeError_def)
          next
            case (Some c)
            have "Decode intoID [] r = (Inr i, r')"
              using first i by simp
            moreover have "fst (Decode intoCredentials [] r') = Inr ''admin''"
              using second Inr True by simp
            moreover note Some
            moreover have "resolveComplaintHandler r s =
              (\<lparr>status = StatusNoContent, payload = NoBody\<rparr>,
               s\<lparr>complaints := fmupd i (c\<lparr>Resolved := True\<rparr>) (complaints s)\<rparr>)"
              using first i second Inr True Some by (simp add: resolveComplaintHandler_def)
            ultimately show ?thesis by (rule resolved)
          qed
        qed
      qed
    qed
  qed
qed

section \<open>Every complaint has its owner\<close>

text \<open>
  No request removes a user, and a complaint enters the complaints table only after its
  secret code was found in the users table.
\<close>

lemma serve_owned:
  assumes owned: "\<And>i c. fmlookup (complaints s) i = Some c
             \<Longrightarrow> fmlookup (users s) (Complaint.SecretCode c) \<noteq> None"
    and "fmlookup (complaints (snd (serve call s))) i = Some c"
  shows "fmlookup (users (snd (serve call s))) (Complaint.SecretCode c) \<noteq> None"
proof (cases call)
  case (Register r)
  show ?thesis
  proof (cases rule: registerHandler_store [of r s])
    case refused
    with assms Register show ?thesis by simp
  next
    case (stored u)
    with assms(2) Register have "fmlookup (complaints s) i = Some c"
      by simp
    from owned [OF this] stored Register show ?thesis
      by simp
  qed
next
  case (SubmitComplaint r)
  show ?thesis
  proof (cases rule: submitComplaintHandler_store [of r s])
    case refused
    with assms SubmitComplaint show ?thesis by simp
  next
    case (stored c' owner)
    show ?thesis
    proof (cases "Complaint.ID c' = i")
      case True
      with assms(2) stored SubmitComplaint have "c = c'"
        by simp
      with stored SubmitComplaint show ?thesis
        by simp
    next
      case False
      with assms(2) stored SubmitComplaint have "fmlookup (complaints s) i = Some c"
        by simp
      from owned [OF this] stored SubmitComplaint show ?thesis
        by simp
    qed
  qed
next
  case (ResolveComplaint r)
  show ?thesis
  proof (cases rule: resolveComplaintHandler_cases [of r s])
    case refused
    with assms ResolveComplaint show ?thesis by simp
  next
    case (resolved j r' c')
    show ?thesis
    proof (cases "j = i")
      case True
      with assms(2) resolved ResolveComplaint have "c = c'\<lparr>Resolved := True\<rparr>"
        by simp
      with owned [OF resolved(3)] resolved ResolveComplaint show ?thesis
        by simp
    next
      case False
      with assms(2) resolved ResolveComplaint have "fmlookup (complaints s) i = Some c"
        by simp
      from owned [OF this] resolved ResolveComplaint show ?thesis
        by simp
    qed
  qed
qed (use assms in \<open>simp_all add: loginHandler_store getAllComplaintsForUserHandler_store
      getAllComplaintsForAdminHandler_store viewComplaintHandler_store\<close>)

lemma reachable_owned:
  assumes "reachable s" and "fmlookup (complaints s) i = Some c"
  shows "fmlookup (users s) (Complaint.SecretCode c) \<noteq> None"
  using assms
proof (induction arbitrary: i c rule: reachable.induct)
  case start
  then show ?case by (simp add: emptyStore_def)
next
  case (step s call)
  from step.IH step.prems show ?case
    by (rule serve_owned)
qed

lemma viewComplaintHandler_user_not_found:
  assumes "fst (viewComplaintHandler r s) =
             \<lparr>status = StatusNotFound, payload = ErrorBody (Text ''User not found'')\<rparr>"
  shows "\<exists>i c. fmlookup (complaints s) i = Some c
           \<and> fmlookup (users s) (Complaint.SecretCode c) = None"
  using assms
  by (cases "Decode intoID [] r")
    (auto simp: viewComplaintHandler_def writeError_def split: sum.splits option.splits)

text \<open>
  C7: in every store the server can reach from the empty one, the secret code of every
  complaint of the complaints table keys a user of the users table; so viewComplaint never
  answers 404 "User not found" there, though the handler makes the check.
\<close>

theorem reachable_complaints_have_owner:
  assumes "reachable s"
  shows "(\<forall>i c. fmlookup (complaints s) i = Some c
            \<longrightarrow> (\<exists>owner. fmlookup (users s) (Complaint.SecretCode c) = Some owner))
         \<and> (\<forall>r. fst (viewComplaintHandler r s) \<noteq>
                  \<lparr>status = 404, payload = ErrorBody (Text ''User not found'')\<rparr>)"
proof -
  have owned: "fmlookup (users s) (Complaint.SecretCode c) \<noteq> None"
    if "fmlookup (complaints s) i = Some c" for i c
    using assms that by (rule reachable_owned)
  have "fst (viewComplaintHandler r s) \<noteq>
          \<lparr>status = 404, payload = ErrorBody (Text ''User not found'')\<rparr>" for r
    using viewComplaintHandler_user_not_found [of r s] owned by blast
  with owned show ?thesis by auto
qed

theorem reachable_complaints_have_owner_witness:
  "reachable (snd (serve (SubmitComplaint
       [[JObject [(''title'', JString ''t''), (''severity'', JNumber 5),
                  (''secretCode'', JString ''c1'')]]])
     (snd (serve (Register
       [[JObject [(''secretCode'', JString ''c1''), (''name'', JString ''A'')]]]) emptyStore))))
   \<and> fmlookup (complaints (snd (serve (SubmitComplaint
       [[JObject [(''title'', JString ''t''), (''severity'', JNumber 5),
                  (''secretCode'', JString ''c1'')]]])
     (snd (serve (Register
       [[JObject [(''secretCode'', JString ''c1''), (''name'', JString ''A'')]]]) emptyStore)))))
       ''1'' =
     Some \<lparr>Complaint.ID = ''1'', Title = ''t'', Summary = [], Severity = 5, Resolved = False,
           Complaint.SecretCode = ''c1''\<rparr>
   \<and> (\<exists>owner. fmlookup (users (snd (serve (SubmitComplaint
       [[JObject [(''title'', JString ''t''), (''severity'', JNumber 5),
                  (''secretCode'', JString ''c1'')]]])
     (snd (serve (Register
       [[JObject [(''secretCode'', JString ''c1''), (''name'', JString ''A'')]]]) emptyStore)))))
       ''c1'' = Some owner)
   \<and> fst (viewComplaintHandler [[JObject [(''id'', JString ''1'')]]]
       (snd (serve (SubmitComplaint
       [[JObject [(''title'', JString ''t''), (''severity'', JNumber 5),
                  (''secretCode'', JString ''c1'')]]])
     (snd (serve (Register
       [[JObject [(''secretCode'', JString ''c1''), (''name'', JString ''A'')]]]) emptyStore)))))
     \<noteq> \<lparr>status = 404, payload = ErrorBody (Text ''User not found'')\<rparr>"
proof -
  let ?s = "snd (serve (SubmitComplaint
       [[JObject [(''title'', JString ''t''), (''severity'', JNumber 5),
                  (''secretCode'', JString ''c1'')]]])
     (snd (serve (Register
       [[JObject [(''secretCode'', JString ''c1''), (''name'', JString ''A'')]]]) emptyStore)))"
  have reach: "reachable ?s"
    by (intro reachable.intros)
  have stored: "fmlookup (complaints ?s) ''1'' =
     Some \<lparr>Complaint.ID = ''1'', Title = ''t'', Summary = [], Severity = 5, Resolved = False,
           Complaint.SecretCode = ''c1''\<rparr>"
    by code_simp
  note inv = reachable_complaints_have_owner [OF reach]
  from inv stored
  have "\<exists>owner. fmlookup (users ?s)
      (Complaint.SecretCode \<lparr>Complaint.ID = ''1'', Title = ''t'', Summary = [], Severity = 5,
         Resolved = False, Complaint.SecretCode = ''c1''\<rparr>) = Some owner"
    by blast
  then have owner: "\<exists>owner. fmlookup (users ?s) ''c1'' = Some owner"
    by (simp del: serve.simps)
  from inv have view: "fst (viewComplaintHandler [[JObject [(''id'', JString ''1'')]]] ?s)
      \<noteq> \<lparr>status = 404, payload = ErrorBody (Text ''User not found'')\<rparr>"
    by blast
  from reach stored owner view show ?thesis
    by blast
qed

section \<open>Two registrations with no submission in between\<close>

text \<open>
  The ID of a new user is computed from the size of the complaints table alone, and only
  \<^verbatim>\<open>submitComplaintHandler\<close> adds a key to that table.
\<close>

lemma registerHandler_ok:
  assumes "fst (registerHandler r s) = \<lparr>status = StatusOK, payload = UserBody v\<rparr>"
  shows "fmlookup (users s) (User.SecretCode v) = None"
    and "User.ID v = generateUniqueID s"
    and "snd (registerHandler r s) = s\<lparr>users := fmupd (User.SecretCode v) v (users s)\<rparr>"
  using assms
  by (cases "Decode intoUser zeroUser r";
      auto simp: registerHandler_def writeError_def Let_def split: sum.splits option.splits)+

lemma serve_no_submit:
  assumes "\<forall>b. call \<noteq> SubmitComplaint b"
  shows "fmdom (complaints (snd (serve call s))) = fmdom (complaints s)"
    and "fmlookup (users s) k = Some u \<Longrightarrow> fmlookup (users (snd (serve call s))) k = Some u"
proof -
  show "fmdom (complaints (snd (serve call s))) = fmdom (complaints s)"
  proof (cases call)
    case (Register r)
    then show ?thesis
      by (cases rule: registerHandler_store [of r s]) simp_all
  next
    case (SubmitComplaint r)
    with assms show ?thesis by simp
  next
    case (ResolveComplaint r)
    show ?thesis
    proof (cases rule: resolveComplaintHandler_cases [of r s])
      case refused
      with ResolveComplaint show ?thesis by simp
    next
      case (resolved i r' c)
      from resolved(3) have "i |\<in>| fmdom (complaints s)"
        by (rule fmdomI)
      with resolved(4) ResolveComplaint show ?thesis
        by (simp add: finsert_absorb)
    qed
  qed (simp_all add: loginHandler_store getAllComplaintsForUserHandler_store
      getAllComplaintsForAdminHandler_store viewComplaintHandler_store)
  show "fmlookup (users (snd (serve call s))) k = Some u" if "fmlookup (users s) k = Some u"
  proof (cases call)
    case (Register r)
    show ?thesis
    proof (cases rule: registerHandler_store [of r s])
      case refused
      with that Register show ?thesis by simp
    next
      case (stored new)
      with that have "User.SecretCode new \<noteq> k"
        by auto
      with that stored Register show ?thesis
        by simp
    qed
  next
    case (SubmitComplaint r)
    with assms show ?thesis by simp
  next
    case (ResolveComplaint r)
    with that show ?thesis
      by (cases rule: resolveComplaintHandler_cases [of r s]) simp_all
  qed (use that in \<open>simp_all add: loginHandler_store getAllComplaintsForUserHandler_store
      getAllComplaintsForAdminHandler_store viewComplaintHandler_store\<close>)
qed

lemma serveAll_no_submit:
  assumes "\<forall>b. SubmitComplaint b \<notin> set calls"
  shows "fmdom (complaints (serveAll calls s)) = fmdom (complaints s)
         \<and> (fmlookup (users s) k = Some u \<longrightarrow> fmlookup (users (serveAll calls s)) k = Some u)"
  using assms
proof (induction calls arbitrary: s)
  case Nil
  then show ?case by simp
next
  case (Cons call calls)
  from Cons.prems have this_call: "\<forall>b. call \<noteq> SubmitComplaint b"
    and later: "\<forall>b. SubmitComplaint b \<notin> set calls"
    by auto
  from Cons.IH [OF later, of "snd (serve call s)"]
    serve_no_submit(1) [OF this_call, of s] serve_no_submit(2) [OF this_call, of s k u]
  show ?case by simp
qed

text \<open>
  C9: when two registrations succeed and no complaint is submitted between them
  (whatever other requests are served), both users get the same ID, the decimal string of
  the number of complaints plus one; their secret codes differ, and both records are in
  the users table afterwards, under one ID.
\<close>

theorem register_twice_same_id:
  assumes "fst (registerHandler r1 s0) = \<lparr>status = 200, payload = UserBody v1\<rparr>"
    and "\<forall>b. SubmitComplaint b \<notin> set between"
    and "s2 = serveAll between (snd (registerHandler r1 s0))"
    and "fst (registerHandler r2 s2) = \<lparr>status = 200, payload = UserBody v2\<rparr>"
  shows "User.ID v1 = User.ID v2
         \<and> User.ID v1 = Sprintf_d (fcard (fmdom (complaints s0)) + 1)
         \<and> User.SecretCode v1 \<noteq> User.SecretCode v2
         \<and> fmlookup (users (snd (registerHandler r2 s2))) (User.SecretCode v1) = Some v1
         \<and> fmlookup (users (snd (registerHandler r2 s2))) (User.SecretCode v2) = Some v2"
proof -
  let ?s1 = "snd (registerHandler r1 s0)"
  note first = registerHandler_ok [OF assms(1)]
  note second = registerHandler_ok [OF assms(4)]
  have v1_s1: "fmlookup (users ?s1) (User.SecretCode v1) = Some v1"
    by (simp add: first(3))
  have count_s1: "fmdom (complaints ?s1) = fmdom (complaints s0)"
    by (simp add: first(3))
  from serveAll_no_submit [OF assms(2), of ?s1 "User.SecretCode v1" v1] v1_s1 assms(3)
  have count_s2: "fmdom (complaints s2) = fmdom (complaints ?s1)"
    and v1_s2: "fmlookup (users s2) (User.SecretCode v1) = Some v1"
    by simp_all
  from v1_s2 second(1) have distinct: "User.SecretCode v1 \<noteq> User.SecretCode v2"
    by auto
  have "User.ID v1 = User.ID v2"
    by (simp add: first(2) second(2) generateUniqueID_def count_s1 count_s2)
  moreover have "User.ID v1 = Sprintf_d (fcard (fmdom (complaints s0)) + 1)"
    by (simp add: first(2) generateUniqueID_def)
  moreover have "fmlookup (users (snd (registerHandler r2 s2))) (User.SecretCode v1) = Some v1"
    using v1_s2 distinct by (simp add: second(3))
  moreover have "fmlookup (users (snd (registerHandler r2 s2))) (User.SecretCode v2) = Some v2"
    by (simp add: second(3))
  ultimately show ?thesis
    using distinct by simp
qed

theorem register_twice_same_id_witness:
  "fst (registerHandler [[JObject [(''secretCode'', JString ''c1''), (''name'', JString ''A'')]]]
         emptyStore) =
     \<lparr>status = 200, payload = UserBody \<lparr>User.ID = ''1'', User.SecretCode = ''c1'', Name = ''A'',
        Email = [], Complaints = []\<rparr>\<rparr>
   \<and> (\<forall>b. SubmitComplaint b \<notin> set [Login [[JObject [(''secretCode'', JString ''c1'')]]],
                                       ViewComplaint [[JObject [(''id'', JString ''1'')]]]])
   \<and> fst (registerHandler [[JObject [(''secretCode'', JString ''c2''), (''name'', JString ''B'')]]]
        (serveAll [Login [[JObject [(''secretCode'', JString ''c1'')]]],
                   ViewComplaint [[JObject [(''id'', JString ''1'')]]]]
          (snd (registerHandler
             [[JObject [(''secretCode'', JString ''c1''), (''name'', JString ''A'')]]]
             emptyStore)))) =
     \<lparr>status = 200, payload = UserBody \<lparr>User.ID = ''1'', User.SecretCode = ''c2'', Name = ''B'',
        Email = [], Complaints = []\<rparr>\<rparr>
   \<and> fmlookup (users (snd (registerHandler
          [[JObject [(''secretCode'', JString ''c2''), (''name'', JString ''B'')]]]
          (serveAll [Login [[JObject [(''secretCode'', JString ''c1'')]]],
                     ViewComplaint [[JObject [(''id'', JString ''1'')]]]]
            (snd (registerHandler
               [[JObject [(''secretCode'', JString ''c1''), (''name'', JString ''A'')]]]
               emptyStore)))))) ''c1'' =
     Some \<lparr>User.ID = ''1'', User.SecretCode = ''c1'', Name = ''A'', Email = [], Complaints = []\<rparr>
   \<and> fmlookup (users (snd (registerHandler
          [[JObject [(''secretCode'', JString ''c2''), (''name'', JString ''B'')]]]
          (serveAll [Login [[JObject [(''secretCode'', JString ''c1'')]]],
                     ViewComplaint [[JObject [(''id'', JString ''1'')]]]]
            (snd (registerHandler
               [[JObject [(''secretCode'', JString ''c1''), (''name'', JString ''A'')]]]
               emptyStore)))))) ''c2'' =
     Some \<lparr>User.ID = ''1'', User.SecretCode = ''c2'', Name = ''B'', Email = [], Complaints = []\<rparr>"
proof -
  have first: "fst (registerHandler
         [[JObject [(''secretCode'', JString ''c1''), (''name'', JString ''A'')]]] emptyStore) =
     \<lparr>status = 200, payload = UserBody \<lparr>User.ID = ''1'', User.SecretCode = ''c1'', Name = ''A'',
        Email = [], Complaints = []\<rparr>\<rparr>"
    by code_simp
  have between: "\<forall>b. SubmitComplaint b \<notin> set [Login [[JObject [(''secretCode'', JString ''c1'')]]],
                                       ViewComplaint [[JObject [(''id'', JString ''1'')]]]]"
    by simp
  have second: "fst (registerHandler
        [[JObject [(''secretCode'', JString ''c2''), (''name'', JString ''B'')]]]
        (serveAll [Login [[JObject [(''secretCode'', JString ''c1'')]]],
                   ViewComplaint [[JObject [(''id'', JString ''1'')]]]]
          (snd (registerHandler
             [[JObject [(''secretCode'', JString ''c1''), (''name'', JString ''A'')]]]
             emptyStore)))) =
     \<lparr>status = 200, payload = UserBody \<lparr>User.ID = ''1'', User.SecretCode = ''c2'', Name = ''B'',
        Email = [], Complaints = []\<rparr>\<rparr>"
    by code_simp
  note same = register_twice_same_id [OF first between refl second]
  from same have "fmlookup (users (snd (registerHandler
          [[JObject [(''secretCode'', JString ''c2''), (''name'', JString ''B'')]]]
          (serveAll [Login [[JObject [(''secretCode'', JString ''c1'')]]],
                     ViewComplaint [[JObject [(''id'', JString ''1'')]]]]
            (snd (registerHandler
               [[JObject [(''secretCode'', JString ''c1''), (''name'', JString ''A'')]]]
               emptyStore))))))
        (User.SecretCode \<lparr>User.ID = ''1'', User.SecretCode = ''c1'', Name = ''A'', Email = [],
           Complaints = []\<rparr>) =
     Some \<lparr>User.ID = ''1'', User.SecretCode = ''c1'', Name = ''A'', Email = [], Complaints = []\<rparr>"
    by (rule conjunct1 [OF conjunct2 [OF conjunct2 [OF conjunct2]]])
  then have kept: "fmlookup (users (snd (registerHandler
          [[JObject [(''secretCode'', JString ''c2''), (''name'', JString ''B'')]]]
          (serveAll [Login [[JObject [(''secretCode'', JString ''c1'')]]],
                     ViewComplaint [[JObject [(''id'', JString ''1'')]]]]
            (snd (registerHandler
               [[JObject [(''secretCode'', JString ''c1''), (''name'', JString ''A'')]]]
               emptyStore)))))) ''c1'' =
     Some \<lparr>User.ID = ''1'', User.SecretCode = ''c1'', Name = ''A'', Email = [], Complaints = []\<rparr>"
    by (simp only: User.select_convs)
  from same have "fmlookup (users (snd (registerHandler
          [[JObject [(''secretCode'', JString ''c2''), (''name'', JString ''B'')]]]
          (serveAll [Login [[JObject [(''secretCode'', JString ''c1'')]]],
                     ViewComplaint [[JObject [(''id'', JString ''1'')]]]]
            (snd (registerHandler
               [[JObject [(''secretCode'', JString ''c1''), (''name'', JString ''A'')]]]
               emptyStore))))))
        (User.SecretCode \<lparr>User.ID = ''1'', User.SecretCode = ''c2'', Name = ''B'', Email = [],
           Complaints = []\<rparr>) =
     Some \<lparr>User.ID = ''1'', User.SecretCode = ''c2'', Name = ''B'', Email = [], Complaints = []\<rparr>"
    by (rule conjunct2 [OF conjunct2 [OF conjunct2 [OF conjunct2]]])
  then have added: "fmlookup (users (snd (registerHandler
          [[JObject [(''secretCode'', JString ''c2''), (''name'', JString ''B'')]]]
          (serveAll [Login [[JObject [(''secretCode'', JString ''c1'')]]],
                     ViewComplaint [[JObject [(''id'', JString ''1'')]]]]
            (snd (registerHandler
               [[JObject [(''secretCode'', JString ''c1''), (''name'', JString ''A'')]]]
               emptyStore)))))) ''c2'' =
     Some \<lparr>User.ID = ''1'', User.SecretCode = ''c2'', Name = ''B'', Email = [], Complaints = []\<rparr>"
    by (simp only: User.select_convs)
  from first between second kept added show ?thesis
    by (intro conjI)
qed

section \<open>One counter for the IDs of users and of complaints\<close>

lemma Sprintf_d_1: "Sprintf_d (Suc 0) = ''1''"
  by code_simp

lemma generateUniqueID_no_complaints:
  "complaints s = fmempty \<Longrightarrow> generateUniqueID s = ''1''"
  by (simp add: generateUniqueID_def fcard_fempty Sprintf_d_1)

text \<open>
  C1: a registration that succeeds gives the new user the ID that is the decimal string of
  the number of complaints plus one, and a submission that succeeds stores the new
  complaint under the ID computed the same way, from the table before the insertion. From
  the empty store: the first user registered gets ID "1"; the first complaint, submitted
  under that user's secret code, gets ID "1" too; then the users table holds a user with
  ID "1", the complaints table a complaint with ID "1", and viewComplaint on "1" answers
  with the complaint.
\<close>

theorem ids_from_complaint_count:
  "(fst (Decode intoUser zeroUser r) = Inr u \<and> fmlookup (users s) (User.SecretCode u) = None
      \<longrightarrow> fst (registerHandler r s) =
            \<lparr>status = 200,
             payload = UserBody (u\<lparr>User.ID := Sprintf_d (fcard (fmdom (complaints s)) + 1),
                                   Complaints := []\<rparr>)\<rparr>
          \<and> fmlookup (users (snd (registerHandler r s))) (User.SecretCode u) =
              Some (u\<lparr>User.ID := Sprintf_d (fcard (fmdom (complaints s)) + 1),
                      Complaints := []\<rparr>))
   \<and> (fst (Decode intoComplaint zeroComplaint q) = Inr c
        \<and> fmlookup (users s) (Complaint.SecretCode c) = Some owner
      \<longrightarrow> fst (submitComplaintHandler q s) = \<lparr>status = 201, payload = NoBody\<rparr>
          \<and> fmlookup (complaints (snd (submitComplaintHandler q s)))
                (Sprintf_d (fcard (fmdom (complaints s)) + 1)) =
              Some (c\<lparr>Complaint.ID := Sprintf_d (fcard (fmdom (complaints s)) + 1)\<rparr>))
   \<and> (fst (Decode intoUser zeroUser r1) = Inr u1
        \<and> fst (Decode intoComplaint zeroComplaint q1) = Inr c1
        \<and> Complaint.SecretCode c1 = User.SecretCode u1
        \<and> fst (Decode intoID [] v) = Inr ''1''
      \<longrightarrow> fst (registerHandler r1 emptyStore) =
            \<lparr>status = 200, payload = UserBody (u1\<lparr>User.ID := ''1'', Complaints := []\<rparr>)\<rparr>
          \<and> fst (submitComplaintHandler q1 (snd (registerHandler r1 emptyStore))) =
              \<lparr>status = 201, payload = NoBody\<rparr>
          \<and> fmlookup (users (snd (submitComplaintHandler q1 (snd (registerHandler r1 emptyStore)))))
                (User.SecretCode u1) =
              Some (u1\<lparr>User.ID := ''1'', Complaints := [c1\<lparr>Complaint.ID := ''1''\<rparr>]\<rparr>)
          \<and> fmlookup (complaints (snd (submitComplaintHandler q1 (snd (registerHandler r1 emptyStore)))))
                ''1'' =
              Some (c1\<lparr>Complaint.ID := ''1''\<rparr>)
          \<and> fst (viewComplaintHandler v
                (snd (submitComplaintHandler q1 (snd (registerHandler r1 emptyStore))))) =
              \<lparr>status = 200, payload = ComplaintBody (c1\<lparr>Complaint.ID := ''1''\<rparr>)\<rparr>)"
proof (intro conjI impI; (elim conjE)?)
  assume dec: "fst (Decode intoUser zeroUser r) = Inr u"
    and free: "fmlookup (users s) (User.SecretCode u) = None"
  note reg = registerHandler_new [OF dec free]
  show "fst (registerHandler r s) =
            \<lparr>status = 200,
             payload = UserBody (u\<lparr>User.ID := Sprintf_d (fcard (fmdom (complaints s)) + 1),
                                   Complaints := []\<rparr>)\<rparr>"
    by (simp add: reg generateUniqueID_def)
  show "fmlookup (users (snd (registerHandler r s))) (User.SecretCode u) =
              Some (u\<lparr>User.ID := Sprintf_d (fcard (fmdom (complaints s)) + 1),
                      Complaints := []\<rparr>)"
    by (simp add: reg generateUniqueID_def)
next
  assume dec: "fst (Decode intoComplaint zeroComplaint q) = Inr c"
    and owner: "fmlookup (users s) (Complaint.SecretCode c) = Some owner"
  note sub = submitComplaintHandler_known [OF dec owner]
  show "fst (submitComplaintHandler q s) = \<lparr>status = 201, payload = NoBody\<rparr>"
    by (simp add: sub)
  show "fmlookup (complaints (snd (submitComplaintHandler q s)))
                (Sprintf_d (fcard (fmdom (complaints s)) + 1)) =
              Some (c\<lparr>Complaint.ID := Sprintf_d (fcard (fmdom (complaints s)) + 1)\<rparr>)"
    by (simp add: sub generateUniqueID_def)
next
  assume du: "fst (Decode intoUser zeroUser r1) = Inr u1"
    and dc: "fst (Decode intoComplaint zeroComplaint q1) = Inr c1"
    and same: "Complaint.SecretCode c1 = User.SecretCode u1"
    and dv: "fst (Decode intoID [] v) = Inr ''1''"
  let ?u = "u1\<lparr>User.ID := ''1'', Complaints := []\<rparr>"
  let ?c = "c1\<lparr>Complaint.ID := ''1''\<rparr>"
  let ?s1 = "snd (registerHandler r1 emptyStore)"
  let ?s2 = "snd (submitComplaintHandler q1 ?s1)"
  have free: "fmlookup (users emptyStore) (User.SecretCode u1) = None"
    by (simp add: emptyStore_def)
  have id0: "generateUniqueID emptyStore = ''1''"
    by (simp add: generateUniqueID_no_complaints emptyStore_def)
  note reg = registerHandler_new [OF du free, unfolded id0]
  have s1: "?s1 = \<lparr>users = fmupd (User.SecretCode u1) ?u fmempty, complaints = fmempty\<rparr>"
    using reg by (simp add: emptyStore_def)
  have id1: "generateUniqueID ?s1 = ''1''"
    by (simp add: generateUniqueID_no_complaints s1)
  have owner: "fmlookup (users ?s1) (Complaint.SecretCode c1) = Some ?u"
    by (simp add: s1 same)
  note sub = submitComplaintHandler_known [OF dc owner, unfolded id1]
  have stored: "fmlookup (complaints ?s2) ''1'' = Some ?c"
    by (simp add: sub)
  have owner2: "fmlookup (users ?s2) (Complaint.SecretCode ?c) =
      Some (u1\<lparr>User.ID := ''1'', Complaints := [?c]\<rparr>)"
    by (simp add: sub)
  show "fst (registerHandler r1 emptyStore) = \<lparr>status = 200, payload = UserBody ?u\<rparr>"
    by (simp add: reg)
  show "fst (submitComplaintHandler q1 ?s1) = \<lparr>status = 201, payload = NoBody\<rparr>"
    by (simp add: sub)
  show "fmlookup (users ?s2) (User.SecretCode u1) =
      Some (u1\<lparr>User.ID := ''1'', Complaints := [?c]\<rparr>)"
    using owner2 by (simp add: same)
  show "fmlookup (complaints ?s2) ''1'' = Some ?c"
    by (fact stored)
  show "fst (viewComplaintHandler v ?s2) = \<lparr>status = 200, payload = ComplaintBody ?c\<rparr>"
    by (simp add: viewComplaintHandler_found [OF dv stored owner2])
qed

theorem ids_from_complaint_count_witness:
  "fst (Decode intoUser zeroUser
      [[JObject [(''secretCode'', JString ''c2''), (''name'', JString ''B'')]]]) =
     Inr \<lparr>User.ID = [], User.SecretCode = ''c2'', Name = ''B'', Email = [], Complaints = []\<rparr>
   \<and> fmlookup (users \<lparr>users = fmupd ''c1'' \<lparr>User.ID = ''1'', User.SecretCode = ''c1'',
          Name = ''A'', Email = [], Complaints = [\<lparr>Complaint.ID = ''1'', Title = ''t'',
            Summary = [], Severity = 5, Resolved = False, Complaint.SecretCode = ''c1''\<rparr>]\<rparr> fmempty,
        complaints = fmupd ''1'' \<lparr>Complaint.ID = ''1'', Title = ''t'',
            Summary = [], Severity = 5, Resolved = False, Complaint.SecretCode = ''c1''\<rparr> fmempty\<rparr>)
       ''c2'' = None
   \<and> fst (registerHandler [[JObject [(''secretCode'', JString ''c2''), (''name'', JString ''B'')]]]
       \<lparr>users = fmupd ''c1'' \<lparr>User.ID = ''1'', User.SecretCode = ''c1'',
          Name = ''A'', Email = [], Complaints = [\<lparr>Complaint.ID = ''1'', Title = ''t'',
            Summary = [], Severity = 5, Resolved = False, Complaint.SecretCode = ''c1''\<rparr>]\<rparr> fmempty,
        complaints = fmupd ''1'' \<lparr>Complaint.ID = ''1'', Title = ''t'',
            Summary = [], Severity = 5, Resolved = False, Complaint.SecretCode = ''c1''\<rparr> fmempty\<rparr>) =
     \<lparr>status = 200, payload = UserBody \<lparr>User.ID = ''2'', User.SecretCode = ''c2'', Name = ''B'',
        Email = [], Complaints = []\<rparr>\<rparr>
   \<and> fst (Decode intoComplaint zeroComplaint
      [[JObject [(''title'', JString ''again''), (''secretCode'', JString ''c1'')]]]) =
     Inr \<lparr>Complaint.ID = [], Title = ''again'', Summary = [], Severity = 0, Resolved = False,
          Complaint.SecretCode = ''c1''\<rparr>
   \<and> fst (submitComplaintHandler
       [[JObject [(''title'', JString ''again''), (''secretCode'', JString ''c1'')]]]
       \<lparr>users = fmupd ''c1'' \<lparr>User.ID = ''1'', User.SecretCode = ''c1'',
          Name = ''A'', Email = [], Complaints = [\<lparr>Complaint.ID = ''1'', Title = ''t'',
            Summary = [], Severity = 5, Resolved = False, Complaint.SecretCode = ''c1''\<rparr>]\<rparr> fmempty,
        complaints = fmupd ''1'' \<lparr>Complaint.ID = ''1'', Title = ''t'',
            Summary = [], Severity = 5, Resolved = False, Complaint.SecretCode = ''c1''\<rparr> fmempty\<rparr>) =
     \<lparr>status = 201, payload = NoBody\<rparr>
   \<and> fmlookup (complaints (snd (submitComplaintHandler
       [[JObject [(''title'', JString ''again''), (''secretCode'', JString ''c1'')]]]
       \<lparr>users = fmupd ''c1'' \<lparr>User.ID = ''1'', User.SecretCode = ''c1'',
          Name = ''A'', Email = [], Complaints = [\<lparr>Complaint.ID = ''1'', Title = ''t'',
            Summary = [], Severity = 5, Resolved = False, Complaint.SecretCode = ''c1''\<rparr>]\<rparr> fmempty,
        complaints = fmupd ''1'' \<lparr>Complaint.ID = ''1'', Title = ''t'',
            Summary = [], Severity = 5, Resolved = False, Complaint.SecretCode = ''c1''\<rparr> fmempty\<rparr>)))
       ''2'' =
     Some \<lparr>Complaint.ID = ''2'', Title = ''again'', Summary = [], Severity = 0, Resolved = False,
          Complaint.SecretCode = ''c1''\<rparr>
   \<and> fst (Decode intoUser zeroUser
      [[JObject [(''secretCode'', JString ''c1''), (''name'', JString ''A'')]]]) =
     Inr \<lparr>User.ID = [], User.SecretCode = ''c1'', Name = ''A'', Email = [], Complaints = []\<rparr>
   \<and> fst (Decode intoComplaint zeroComplaint
      [[JObject [(''title'', JString ''t''), (''severity'', JNumber 5),
                 (''secretCode'', JString ''c1'')]]]) =
     Inr \<lparr>Complaint.ID = [], Title = ''t'', Summary = [], Severity = 5, Resolved = False,
          Complaint.SecretCode = ''c1''\<rparr>
   \<and> fst (Decode intoID [] [[JObject [(''id'', JString ''1'')]]]) = Inr ''1''
   \<and> fst (registerHandler [[JObject [(''secretCode'', JString ''c1''), (''name'', JString ''A'')]]]
        emptyStore) =
     \<lparr>status = 200, payload = UserBody \<lparr>User.ID = ''1'', User.SecretCode = ''c1'', Name = ''A'',
        Email = [], Complaints = []\<rparr>\<rparr>
   \<and> fmlookup (users (snd (submitComplaintHandler
          [[JObject [(''title'', JString ''t''), (''severity'', JNumber 5),
                     (''secretCode'', JString ''c1'')]]]
          (snd (registerHandler
             [[JObject [(''secretCode'', JString ''c1''), (''name'', JString ''A'')]]]
             emptyStore))))) ''c1'' =
     Some \<lparr>User.ID = ''1'', User.SecretCode = ''c1'', Name = ''A'', Email = [],
        Complaints = [\<lparr>Complaint.ID = ''1'', Title = ''t'', Summary = [], Severity = 5,
          Resolved = False, Complaint.SecretCode = ''c1''\<rparr>]\<rparr>
   \<and> fmlookup (complaints (snd (submitComplaintHandler
          [[JObject [(''title'', JString ''t''), (''severity'', JNumber 5),
                     (''secretCode'', JString ''c1'')]]]
          (snd (registerHandler
             [[JObject [(''secretCode'', JString ''c1''), (''name'', JString ''A'')]]]
             emptyStore))))) ''1'' =
     Some \<lparr>Complaint.ID = ''1'', Title = ''t'', Summary = [], Severity = 5,
          Resolved = False, Complaint.SecretCode = ''c1''\<rparr>
   \<and> fst (viewComplaintHandler [[JObject [(''id'', JString ''1'')]]]
        (snd (submitComplaintHandler
          [[JObject [(''title'', JString ''t''), (''severity'', JNumber 5),
                     (''secretCode'', JString ''c1'')]]]
          (snd (registerHandler
             [[JObject [(''secretCode'', JString ''c1''), (''name'', JString ''A'')]]]
             emptyStore))))) =
     \<lparr>status = 200, payload = ComplaintBody \<lparr>Complaint.ID = ''1'', Title = ''t'', Summary = [],
        Severity = 5, Resolved = False, Complaint.SecretCode = ''c1''\<rparr>\<rparr>"
proof -
  let ?old = "\<lparr>Complaint.ID = ''1'', Title = ''t'',
            Summary = [], Severity = 5, Resolved = False, Complaint.SecretCode = ''c1''\<rparr>"
  let ?owner = "\<lparr>User.ID = ''1'', User.SecretCode = ''c1'',
          Name = ''A'', Email = [], Complaints = [?old]\<rparr>"
  let ?s = "\<lparr>users = fmupd ''c1'' ?owner fmempty, complaints = fmupd ''1'' ?old fmempty\<rparr>"
  let ?r = "[[JObject [(''secretCode'', JString ''c2''), (''name'', JString ''B'')]]]"
  let ?u = "\<lparr>User.ID = [], User.SecretCode = ''c2'', Name = ''B'', Email = [], Complaints = []\<rparr>"
  let ?q = "[[JObject [(''title'', JString ''again''), (''secretCode'', JString ''c1'')]]]"
  let ?c = "\<lparr>Complaint.ID = [], Title = ''again'', Summary = [], Severity = 0, Resolved = False,
          Complaint.SecretCode = ''c1''\<rparr>"
  let ?r1 = "[[JObject [(''secretCode'', JString ''c1''), (''name'', JString ''A'')]]]"
  let ?u1 = "\<lparr>User.ID = [], User.SecretCode = ''c1'', Name = ''A'', Email = [], Complaints = []\<rparr>"
  let ?q1 = "[[JObject [(''title'', JString ''t''), (''severity'', JNumber 5),
                 (''secretCode'', JString ''c1'')]]]"
  let ?c1 = "\<lparr>Complaint.ID = [], Title = ''t'', Summary = [], Severity = 5, Resolved = False,
          Complaint.SecretCode = ''c1''\<rparr>"
  let ?v = "[[JObject [(''id'', JString ''1'')]]]"
  have du: "fst (Decode intoUser zeroUser ?r) = Inr ?u" by code_simp
  have free: "fmlookup (users ?s) (User.SecretCode ?u) = None" by simp
  have dc: "fst (Decode intoComplaint zeroComplaint ?q) = Inr ?c" by code_simp
  have owner: "fmlookup (users ?s) (Complaint.SecretCode ?c) = Some ?owner" by simp
  have du1: "fst (Decode intoUser zeroUser ?r1) = Inr ?u1" by code_simp
  have dc1: "fst (Decode intoComplaint zeroComplaint ?q1) = Inr ?c1" by code_simp
  have same: "Complaint.SecretCode ?c1 = User.SecretCode ?u1" by simp
  have dv: "fst (Decode intoID [] ?v) = Inr ''1''" by code_simp
  have next_id: "Sprintf_d (fcard (fmdom (complaints ?s)) + 1) = ''2''" by code_simp
  note ids = ids_from_complaint_count [of ?r ?u ?s ?q ?c ?owner ?r1 ?u1 ?q1 ?c1 ?v, unfolded next_id]
  from ids du free
  have reg: "fst (registerHandler ?r ?s) =
      \<lparr>status = 200, payload = UserBody (?u\<lparr>User.ID := ''2'', Complaints := []\<rparr>)\<rparr>"
    by blast
  from ids dc owner
  have sub: "fst (submitComplaintHandler ?q ?s) = \<lparr>status = 201, payload = NoBody\<rparr>"
    and stored: "fmlookup (complaints (snd (submitComplaintHandler ?q ?s))) ''2'' =
      Some (?c\<lparr>Complaint.ID := ''2''\<rparr>)"
    by blast+
  from ids du1 dc1 same dv
  have reg1: "fst (registerHandler ?r1 emptyStore) =
        \<lparr>status = 200, payload = UserBody (?u1\<lparr>User.ID := ''1'', Complaints := []\<rparr>)\<rparr>"
    and user1: "fmlookup (users (snd (submitComplaintHandler ?q1 (snd (registerHandler ?r1 emptyStore)))))
        (User.SecretCode ?u1) =
        Some (?u1\<lparr>User.ID := ''1'', Complaints := [?c1\<lparr>Complaint.ID := ''1''\<rparr>]\<rparr>)"
    and complaint1: "fmlookup (complaints (snd (submitComplaintHandler ?q1
        (snd (registerHandler ?r1 emptyStore))))) ''1'' = Some (?c1\<lparr>Complaint.ID := ''1''\<rparr>)"
    and view1: "fst (viewComplaintHandler ?v
        (snd (submitComplaintHandler ?q1 (snd (registerHandler ?r1 emptyStore))))) =
        \<lparr>status = 200, payload = ComplaintBody (?c1\<lparr>Complaint.ID := ''1''\<rparr>)\<rparr>"
    by blast+
  have not_2: "fmlookup (users ?s) ''c2'' = None" by simp
  from du not_2 reg dc sub stored du1 dc1 dv reg1 user1 complaint1 view1 show ?thesis
    by (simp only: User.simps Complaint.simps simp_thms)
qed

section \<open>The list of all complaints, for the administrator\<close>

lemma foldl_append_Complaints:
  "foldl (\<lambda>allComplaints user. allComplaints @ Complaints user) acc us =
     acc @ concat (map Complaints us)"
  by (induction us arbitrary: acc) simp_all

lemma getAllComplaintsForAdminHandler_admin:
  assumes "fst (Decode intoCredentials [] r) = Inr ''admin''"
  shows "getAllComplaintsForAdminHandler order r s =
           (\<lparr>status = StatusOK,
             payload = ComplaintsBody (concat (map Complaints (rangeValues order (users s))))\<rparr>, s)"
  using assms
  by (cases "Decode intoCredentials [] r")
    (simp add: getAllComplaintsForAdminHandler_def foldl_append_Complaints)

lemma getAllComplaintsForAdminHandler_other:
  assumes "fst (Decode intoCredentials [] r) = Inr code" and "code \<noteq> ''admin''"
  shows "getAllComplaintsForAdminHandler order r s =
           (\<lparr>status = StatusUnauthorized, payload = ErrorBody (Text ''Unauthorized'')\<rparr>, s)"
  using assms
  by (cases "Decode intoCredentials [] r")
    (simp add: getAllComplaintsForAdminHandler_def writeError_def)

lemma rangeValues_keys:
  assumes "\<And>k. k \<in> set order \<Longrightarrow> k |\<in>| fmdom m"
  shows "map Some (rangeValues order m) = map (fmlookup m) order"
  using assms
proof (induction order)
  case Nil
  then show ?case by (simp add: rangeValues_def)
next
  case (Cons k order)
  from Cons.prems [of k] obtain v where "fmlookup m k = Some v"
    by (auto simp: fmlookup_dom_iff)
  moreover from Cons have "map Some (rangeValues order m) = map (fmlookup m) order"
    by simp
  ultimately show ?case
    by (simp add: rangeValues_def)
qed

lemma rangeValues_iterationOrder:
  assumes "iterationOrder order m"
  shows "map Some (rangeValues order m) = map (fmlookup m) order"
proof (rule rangeValues_keys)
  fix k assume "k \<in> set order"
  then have "k |\<in>| fset_of_list order"
    by (simp add: fset_of_list_elem)
  with assms show "k |\<in>| fmdom m"
    by (simp add: iterationOrder_def)
qed

lemma rangeValues_member:
  assumes "iterationOrder order m" and "fmlookup m k = Some v"
  shows "v \<in> set (rangeValues order m)"
proof -
  from assms(2) have "k |\<in>| fmdom m"
    by (rule fmdomI)
  with assms(1) have "k \<in> set order"
    by (simp add: iterationOrder_def fset_of_list_elem [symmetric])
  with assms(2) show ?thesis
    by (force simp: rangeValues_def)
qed

text \<open>
  A request with another secret code is answered 401 through \<^verbatim>\<open>writeError\<close>,
  which writes a body: \<^verbatim>\<open>{"error": "Unauthorized"}\<close>.
\<close>

theorem getAllComplaintsForAdmin_unauthorized_counterexample:
  "status (fst (getAllComplaintsForAdminHandler [''c1''] [[JObject [(''secretCode'', JString ''c1'')]]]
      \<lparr>users = fmupd ''c1'' \<lparr>User.ID = ''1'', User.SecretCode = ''c1'', Name = ''A'',
                 Email = ''a@x'',
                 Complaints = [\<lparr>Complaint.ID = ''1'', Title = ''t'', Summary = ''s'',
                   Severity = 5, Resolved = False, Complaint.SecretCode = ''c1''\<rparr>]\<rparr> fmempty,
       complaints = fmupd ''1'' \<lparr>Complaint.ID = ''1'', Title = ''t'', Summary = ''s'',
                   Severity = 5, Resolved = False, Complaint.SecretCode = ''c1''\<rparr> fmempty\<rparr>)) = 401
   \<and> payload (fst (getAllComplaintsForAdminHandler [''c1''] [[JObject [(''secretCode'', JString ''c1'')]]]
      \<lparr>users = fmupd ''c1'' \<lparr>User.ID = ''1'', User.SecretCode = ''c1'', Name = ''A'',
                 Email = ''a@x'',
                 Complaints = [\<lparr>Complaint.ID = ''1'', Title = ''t'', Summary = ''s'',
                   Severity = 5, Resolved = False, Complaint.SecretCode = ''c1''\<rparr>]\<rparr> fmempty,
       complaints = fmupd ''1'' \<lparr>Complaint.ID = ''1'', Title = ''t'', Summary = ''s'',
                   Severity = 5, Resolved = False, Complaint.SecretCode = ''c1''\<rparr> fmempty\<rparr>)) =
       ErrorBody (Text ''Unauthorized'')
   \<and> payload (fst (getAllComplaintsForAdminHandler [''c1''] [[JObject [(''secretCode'', JString ''c1'')]]]
      \<lparr>users = fmupd ''c1'' \<lparr>User.ID = ''1'', User.SecretCode = ''c1'', Name = ''A'',
                 Email = ''a@x'',
                 Complaints = [\<lparr>Complaint.ID = ''1'', Title = ''t'', Summary = ''s'',
                   Severity = 5, Resolved = False, Complaint.SecretCode = ''c1''\<rparr>]\<rparr> fmempty,
       complaints = fmupd ''1'' \<lparr>Complaint.ID = ''1'', Title = ''t'', Summary = ''s'',
                   Severity = 5, Resolved = False, Complaint.SecretCode = ''c1''\<rparr> fmempty\<rparr>)) \<noteq> NoBody"
  by code_simp

text \<open>
  C8 (amended): with the secret code "admin", getAllComplaintsForAdmin answers 200 with
  the concatenation of the embedded complaint lists of the users, in the order in which
  the iteration visits the keys of the users table (each user once); with any other secret
  code it answers 401 with the error body "Unauthorized" and no complaint. The store is
  unchanged in both cases.
\<close>

theorem getAllComplaintsForAdmin_admin_only:
  assumes "fst (Decode intoCredentials [] r) = Inr code"
  shows "(code = ''admin'' \<and> iterationOrder order (users s)
            \<longrightarrow> getAllComplaintsForAdminHandler order r s =
                  (\<lparr>status = 200,
                    payload = ComplaintsBody
                      (concat (map Complaints (rangeValues order (users s))))\<rparr>, s)
                \<and> map Some (rangeValues order (users s)) = map (fmlookup (users s)) order)
         \<and> (code \<noteq> ''admin''
            \<longrightarrow> getAllComplaintsForAdminHandler order r s =
                  (\<lparr>status = 401, payload = ErrorBody (Text ''Unauthorized'')\<rparr>, s))"
proof (intro conjI impI)
  assume admin: "code = ''admin'' \<and> iterationOrder order (users s)"
  with assms have "fst (Decode intoCredentials [] r) = Inr ''admin''"
    by simp
  then show "getAllComplaintsForAdminHandler order r s =
                  (\<lparr>status = 200,
                    payload = ComplaintsBody
                      (concat (map Complaints (rangeValues order (users s))))\<rparr>, s)"
    by (rule getAllComplaintsForAdminHandler_admin)
  from admin show "map Some (rangeValues order (users s)) = map (fmlookup (users s)) order"
    by (simp add: rangeValues_iterationOrder)
next
  assume "code \<noteq> ''admin''"
  with assms show "getAllComplaintsForAdminHandler order r s =
                  (\<lparr>status = 401, payload = ErrorBody (Text ''Unauthorized'')\<rparr>, s)"
    by (rule getAllComplaintsForAdminHandler_other)
qed

theorem getAllComplaintsForAdmin_admin_only_witness:
  "fst (Decode intoCredentials [] [[JObject [(''secretCode'', JString ''admin'')]]]) = Inr ''admin''
   \<and> iterationOrder [''c2'', ''c1'']
        (users \<lparr>users =
            fmupd ''c2'' \<lparr>User.ID = ''2'', User.SecretCode = ''c2'', Name = ''B'', Email = [],
                Complaints = [\<lparr>Complaint.ID = ''2'', Title = ''u'', Summary = [],
                  Severity = 1, Resolved = False, Complaint.SecretCode = ''c2''\<rparr>]\<rparr>
              (fmupd ''c1'' \<lparr>User.ID = ''1'', User.SecretCode = ''c1'', Name = ''A'', Email = [],
                Complaints = [\<lparr>Complaint.ID = ''1'', Title = ''t'', Summary = [],
                  Severity = 5, Resolved = False, Complaint.SecretCode = ''c1''\<rparr>]\<rparr> fmempty),
          complaints =
            fmupd ''2'' \<lparr>Complaint.ID = ''2'', Title = ''u'', Summary = [],
                  Severity = 1, Resolved = False, Complaint.SecretCode = ''c2''\<rparr>
              (fmupd ''1'' \<lparr>Complaint.ID = ''1'', Title = ''t'', Summary = [],
                  Severity = 5, Resolved = False, Complaint.SecretCode = ''c1''\<rparr> fmempty)\<rparr>)
   \<and> fst (getAllComplaintsForAdminHandler [''c2'', ''c1'']
        [[JObject [(''secretCode'', JString ''admin'')]]]
        \<lparr>users =
            fmupd ''c2'' \<lparr>User.ID = ''2'', User.SecretCode = ''c2'', Name = ''B'', Email = [],
                Complaints = [\<lparr>Complaint.ID = ''2'', Title = ''u'', Summary = [],
                  Severity = 1, Resolved = False, Complaint.SecretCode = ''c2''\<rparr>]\<rparr>
              (fmupd ''c1'' \<lparr>User.ID = ''1'', User.SecretCode = ''c1'', Name = ''A'', Email = [],
                Complaints = [\<lparr>Complaint.ID = ''1'', Title = ''t'', Summary = [],
                  Severity = 5, Resolved = False, Complaint.SecretCode = ''c1''\<rparr>]\<rparr> fmempty),
          complaints =
            fmupd ''2'' \<lparr>Complaint.ID = ''2'', Title = ''u'', Summary = [],
                  Severity = 1, Resolved = False, Complaint.SecretCode = ''c2''\<rparr>
              (fmupd ''1'' \<lparr>Complaint.ID = ''1'', Title = ''t'', Summary = [],
                  Severity = 5, Resolved = False, Complaint.SecretCode = ''c1''\<rparr> fmempty)\<rparr>) =
       \<lparr>status = 200, payload = ComplaintsBody
          [\<lparr>Complaint.ID = ''2'', Title = ''u'', Summary = [],
                  Severity = 1, Resolved = False, Complaint.SecretCode = ''c2''\<rparr>,
           \<lparr>Complaint.ID = ''1'', Title = ''t'', Summary = [],
                  Severity = 5, Resolved = False, Complaint.SecretCode = ''c1''\<rparr>]\<rparr>
   \<and> fst (Decode intoCredentials [] [[JObject [(''secretCode'', JString ''c1'')]]]) = Inr ''c1''
   \<and> ''c1'' \<noteq> ''admin''
   \<and> fst (getAllComplaintsForAdminHandler [''c2'', ''c1'']
        [[JObject [(''secretCode'', JString ''c1'')]]]
        \<lparr>users =
            fmupd ''c2'' \<lparr>User.ID = ''2'', User.SecretCode = ''c2'', Name = ''B'', Email = [],
                Complaints = [\<lparr>Complaint.ID = ''2'', Title = ''u'', Summary = [],
                  Severity = 1, Resolved = False, Complaint.SecretCode = ''c2''\<rparr>]\<rparr>
              (fmupd ''c1'' \<lparr>User.ID = ''1'', User.SecretCode = ''c1'', Name = ''A'', Email = [],
                Complaints = [\<lparr>Complaint.ID = ''1'', Title = ''t'', Summary = [],
                  Severity = 5, Resolved = False, Complaint.SecretCode = ''c1''\<rparr>]\<rparr> fmempty),
          complaints =
            fmupd ''2'' \<lparr>Complaint.ID = ''2'', Title = ''u'', Summary = [],
                  Severity = 1, Resolved = False, Complaint.SecretCode = ''c2''\<rparr>
              (fmupd ''1'' \<lparr>Complaint.ID = ''1'', Title = ''t'', Summary = [],
                  Severity = 5, Resolved = False, Complaint.SecretCode = ''c1''\<rparr> fmempty)\<rparr>) =
       \<lparr>status = 401, payload = ErrorBody (Text ''Unauthorized'')\<rparr>"
proof -
  let ?c1 = "\<lparr>Complaint.ID = ''1'', Title = ''t'', Summary = [],
                  Severity = 5, Resolved = False, Complaint.SecretCode = ''c1''\<rparr>"
  let ?c2 = "\<lparr>Complaint.ID = ''2'', Title = ''u'', Summary = [],
                  Severity = 1, Resolved = False, Complaint.SecretCode = ''c2''\<rparr>"
  let ?s = "\<lparr>users =
            fmupd ''c2'' \<lparr>User.ID = ''2'', User.SecretCode = ''c2'', Name = ''B'', Email = [],
                Complaints = [?c2]\<rparr>
              (fmupd ''c1'' \<lparr>User.ID = ''1'', User.SecretCode = ''c1'', Name = ''A'', Email = [],
                Complaints = [?c1]\<rparr> fmempty),
          complaints =
            fmupd ''2'' \<lparr>Complaint.ID = ''2'', Title = ''u'', Summary = [],
                  Severity = 1, Resolved = False, Complaint.SecretCode = ''c2''\<rparr>
              (fmupd ''1'' \<lparr>Complaint.ID = ''1'', Title = ''t'', Summary = [],
                  Severity = 5, Resolved = False, Complaint.SecretCode = ''c1''\<rparr> fmempty)\<rparr>"
  have admin: "fst (Decode intoCredentials [] [[JObject [(''secretCode'', JString ''admin'')]]]) =
      Inr ''admin''"
    by code_simp
  have other: "fst (Decode intoCredentials [] [[JObject [(''secretCode'', JString ''c1'')]]]) =
      Inr ''c1''"
    by code_simp
  have order: "iterationOrder [''c2'', ''c1''] (users ?s)"
    by (simp add: iterationOrder_def)
  have visited: "concat (map Complaints (rangeValues [''c2'', ''c1''] (users ?s))) = [?c2, ?c1]"
    by (simp add: rangeValues_def)
  have differ: "''c1'' \<noteq> ''admin''"
    by simp
  from getAllComplaintsForAdmin_admin_only [OF admin, of "[''c2'', ''c1'']" ?s] order
  have "getAllComplaintsForAdminHandler [''c2'', ''c1'']
          [[JObject [(''secretCode'', JString ''admin'')]]] ?s =
        (\<lparr>status = 200, payload = ComplaintsBody
            (concat (map Complaints (rangeValues [''c2'', ''c1''] (users ?s))))\<rparr>, ?s)"
    by blast
  then have listed: "fst (getAllComplaintsForAdminHandler [''c2'', ''c1'']
          [[JObject [(''secretCode'', JString ''admin'')]]] ?s) =
        \<lparr>status = 200, payload = ComplaintsBody [?c2, ?c1]\<rparr>"
    by (simp only: visited fst_conv)
  from getAllComplaintsForAdmin_admin_only [OF other, of "[''c2'', ''c1'']" ?s] differ
  have "getAllComplaintsForAdminHandler [''c2'', ''c1'']
          [[JObject [(''secretCode'', JString ''c1'')]]] ?s =
        (\<lparr>status = 401, payload = ErrorBody (Text ''Unauthorized'')\<rparr>, ?s)"
    by blast
  then have refused: "fst (getAllComplaintsForAdminHandler [''c2'', ''c1'']
          [[JObject [(''secretCode'', JString ''c1'')]]] ?s) =
        \<lparr>status = 401, payload = ErrorBody (Text ''Unauthorized'')\<rparr>"
    by (simp only: fst_conv)
  from admin order listed other differ refused show ?thesis
    by (intro conjI)
qed

section \<open>The secret code "admin" is not reserved\<close>

text \<open>A user, once registered, stays: later requests only append to its complaint list.\<close>

lemma serve_user_kept:
  assumes "fmlookup (users s) k = Some u"
  shows "\<exists>added. fmlookup (users (snd (serve call s))) k =
           Some (u\<lparr>Complaints := Complaints u @ added\<rparr>)"
proof (cases call)
  case (Register r)
  show ?thesis
  proof (cases rule: registerHandler_store [of r s])
    case refused
    with assms Register have "fmlookup (users (snd (serve call s))) k =
        Some (u\<lparr>Complaints := Complaints u @ []\<rparr>)"
      by simp
    then show ?thesis ..
  next
    case (stored new)
    with assms have "User.SecretCode new \<noteq> k"
      by auto
    with assms stored Register have "fmlookup (users (snd (serve call s))) k =
        Some (u\<lparr>Complaints := Complaints u @ []\<rparr>)"
      by simp
    then show ?thesis ..
  qed
next
  case (SubmitComplaint r)
  show ?thesis
  proof (cases rule: submitComplaintHandler_store [of r s])
    case refused
    with assms SubmitComplaint have "fmlookup (users (snd (serve call s))) k =
        Some (u\<lparr>Complaints := Complaints u @ []\<rparr>)"
      by simp
    then show ?thesis ..
  next
    case (stored c owner)
    show ?thesis
    proof (cases "Complaint.SecretCode c = k")
      case True
      with assms stored have "owner = u"
        by simp
      with True stored SubmitComplaint have "fmlookup (users (snd (serve call s))) k =
          Some (u\<lparr>Complaints := Complaints u @ [c]\<rparr>)"
        by simp
      then show ?thesis ..
    next
      case False
      with assms stored SubmitComplaint have "fmlookup (users (snd (serve call s))) k =
          Some (u\<lparr>Complaints := Complaints u @ []\<rparr>)"
        by simp
      then show ?thesis ..
    qed
  qed
next
  case (ResolveComplaint r)
  have "fmlookup (users (snd (serve call s))) k = Some (u\<lparr>Complaints := Complaints u @ []\<rparr>)"
    using assms ResolveComplaint
    by (cases rule: resolveComplaintHandler_cases [of r s]) simp_all
  then show ?thesis ..
next
  case (Login r)
  with assms have "fmlookup (users (snd (serve call s))) k =
      Some (u\<lparr>Complaints := Complaints u @ []\<rparr>)"
    by (simp add: loginHandler_store)
  then show ?thesis ..
next
  case (GetAllComplaintsForUser r)
  with assms have "fmlookup (users (snd (serve call s))) k =
      Some (u\<lparr>Complaints := Complaints u @ []\<rparr>)"
    by (simp add: getAllComplaintsForUserHandler_store)
  then show ?thesis ..
next
  case (GetAllComplaintsForAdmin order r)
  with assms have "fmlookup (users (snd (serve call s))) k =
      Some (u\<lparr>Complaints := Complaints u @ []\<rparr>)"
    by (simp add: getAllComplaintsForAdminHandler_store)
  then show ?thesis ..
next
  case (ViewComplaint r)
  with assms have "fmlookup (users (snd (serve call s))) k =
      Some (u\<lparr>Complaints := Complaints u @ []\<rparr>)"
    by (simp add: viewComplaintHandler_store)
  then show ?thesis ..
qed

lemma serveAll_user_kept:
  assumes "fmlookup (users s) k = Some u"
  shows "\<exists>added. fmlookup (users (serveAll calls s)) k =
           Some (u\<lparr>Complaints := Complaints u @ added\<rparr>)"
  using assms
proof (induction calls arbitrary: s u)
  case Nil
  then have "fmlookup (users (serveAll [] s)) k = Some (u\<lparr>Complaints := Complaints u @ []\<rparr>)"
    by simp
  then show ?case ..
next
  case (Cons call calls)
  from serve_user_kept [OF Cons.prems, of call] obtain added where
    "fmlookup (users (snd (serve call s))) k = Some (u\<lparr>Complaints := Complaints u @ added\<rparr>)"
    by blast
  from Cons.IH [OF this] obtain later where
    "fmlookup (users (serveAll calls (snd (serve call s)))) k =
       Some (u\<lparr>Complaints := Complaints u @ added @ later\<rparr>)"
    by auto
  then have "fmlookup (users (serveAll (call # calls) s)) k =
       Some (u\<lparr>Complaints := Complaints u @ (added @ later)\<rparr>)"
    by simp
  then show ?case ..
qed

text \<open>
  C10: a registration whose secret code is "admin", when no user has that code yet,
  succeeds (status 200) and stores the user under "admin"; a login with secret code
  "admin" then answers 200 with that user; and after any further requests the user is
  still there, and every complaint in its embedded list is in the output of
  getAllComplaintsForAdmin.
\<close>

theorem register_admin_secret_code:
  assumes "fst (Decode intoUser zeroUser r) = Inr u"
    and "User.SecretCode u = ''admin''"
    and "fmlookup (users s) ''admin'' = None"
  shows "registerHandler r s =
           (\<lparr>status = 200,
             payload = UserBody (u\<lparr>User.ID := generateUniqueID s, Complaints := []\<rparr>)\<rparr>,
            s\<lparr>users := fmupd ''admin'' (u\<lparr>User.ID := generateUniqueID s, Complaints := []\<rparr>)
                        (users s)\<rparr>)
         \<and> (\<forall>q. fst (Decode intoCredentials [] q) = Inr ''admin''
               \<longrightarrow> fst (loginHandler q (snd (registerHandler r s))) =
                     \<lparr>status = 200,
                      payload = UserBody (u\<lparr>User.ID := generateUniqueID s, Complaints := []\<rparr>)\<rparr>)
         \<and> (\<forall>calls order q.
               iterationOrder order (users (serveAll calls (snd (registerHandler r s))))
               \<and> fst (Decode intoCredentials [] q) = Inr ''admin''
               \<longrightarrow> (\<exists>mine every.
                     fmlookup (users (serveAll calls (snd (registerHandler r s)))) ''admin'' =
                       Some (u\<lparr>User.ID := generateUniqueID s, Complaints := mine\<rparr>)
                     \<and> fst (getAllComplaintsForAdminHandler order q
                              (serveAll calls (snd (registerHandler r s)))) =
                         \<lparr>status = 200, payload = ComplaintsBody every\<rparr>
                     \<and> set mine \<subseteq> set every))"
proof -
  let ?new = "u\<lparr>User.ID := generateUniqueID s, Complaints := []\<rparr>"
  let ?s1 = "snd (registerHandler r s)"
  from assms(2,3) have free: "fmlookup (users s) (User.SecretCode u) = None"
    by simp
  from registerHandler_new [OF assms(1) free] assms(2)
  have reg: "registerHandler r s =
      (\<lparr>status = 200, payload = UserBody ?new\<rparr>, s\<lparr>users := fmupd ''admin'' ?new (users s)\<rparr>)"
    by simp
  have stored: "fmlookup (users ?s1) ''admin'' = Some ?new"
    by (simp add: reg)
  have login: "fst (loginHandler q ?s1) = \<lparr>status = 200, payload = UserBody ?new\<rparr>"
    if "fst (Decode intoCredentials [] q) = Inr ''admin''" for q
    using loginHandler_found [OF that stored] by simp
  have listed: "\<exists>mine every.
        fmlookup (users (serveAll calls ?s1)) ''admin'' =
          Some (u\<lparr>User.ID := generateUniqueID s, Complaints := mine\<rparr>)
        \<and> fst (getAllComplaintsForAdminHandler order q (serveAll calls ?s1)) =
            \<lparr>status = 200, payload = ComplaintsBody every\<rparr>
        \<and> set mine \<subseteq> set every"
    if order: "iterationOrder order (users (serveAll calls ?s1))"
      and q: "fst (Decode intoCredentials [] q) = Inr ''admin''" for calls order q
  proof -
    let ?s2 = "serveAll calls ?s1"
    from serveAll_user_kept [OF stored, of calls] obtain added where
      kept: "fmlookup (users ?s2) ''admin'' = Some (?new\<lparr>Complaints := Complaints ?new @ added\<rparr>)"
      by blast
    let ?every = "concat (map Complaints (rangeValues order (users ?s2)))"
    have mine: "fmlookup (users ?s2) ''admin'' =
        Some (u\<lparr>User.ID := generateUniqueID s, Complaints := added\<rparr>)"
      using kept by simp
    have out: "fst (getAllComplaintsForAdminHandler order q ?s2) =
        \<lparr>status = 200, payload = ComplaintsBody ?every\<rparr>"
      by (simp add: getAllComplaintsForAdminHandler_admin [OF q])
    from rangeValues_member [OF order mine]
    have "set added \<subseteq> set ?every"
      by auto
    with mine out show ?thesis
      by blast
  qed
  from reg login listed show ?thesis
    by blast
qed

theorem register_admin_secret_code_witness:
  "fst (Decode intoUser zeroUser
      [[JObject [(''secretCode'', JString ''admin''), (''name'', JString ''Eve'')]]]) =
     Inr \<lparr>User.ID = [], User.SecretCode = ''admin'', Name = ''Eve'', Email = [], Complaints = []\<rparr>
   \<and> fmlookup (users emptyStore) ''admin'' = None
   \<and> fst (registerHandler
        [[JObject [(''secretCode'', JString ''admin''), (''name'', JString ''Eve'')]]] emptyStore) =
     \<lparr>status = 200, payload = UserBody \<lparr>User.ID = ''1'', User.SecretCode = ''admin'',
        Name = ''Eve'', Email = [], Complaints = []\<rparr>\<rparr>
   \<and> fst (Decode intoCredentials [] [[JObject [(''secretCode'', JString ''admin'')]]]) = Inr ''admin''
   \<and> fst (loginHandler [[JObject [(''secretCode'', JString ''admin'')]]]
        (snd (registerHandler
          [[JObject [(''secretCode'', JString ''admin''), (''name'', JString ''Eve'')]]]
          emptyStore))) =
     \<lparr>status = 200, payload = UserBody \<lparr>User.ID = ''1'', User.SecretCode = ''admin'',
        Name = ''Eve'', Email = [], Complaints = []\<rparr>\<rparr>
   \<and> iterationOrder [''admin'']
        (users (serveAll
          [SubmitComplaint [[JObject [(''title'', JString ''mine''),
                                      (''secretCode'', JString ''admin'')]]]]
          (snd (registerHandler
            [[JObject [(''secretCode'', JString ''admin''), (''name'', JString ''Eve'')]]]
            emptyStore))))
   \<and> fmlookup (users (serveAll
          [SubmitComplaint [[JObject [(''title'', JString ''mine''),
                                      (''secretCode'', JString ''admin'')]]]]
          (snd (registerHandler
            [[JObject [(''secretCode'', JString ''admin''), (''name'', JString ''Eve'')]]]
            emptyStore)))) ''admin'' =
     Some \<lparr>User.ID = ''1'', User.SecretCode = ''admin'', Name = ''Eve'', Email = [],
        Complaints = [\<lparr>Complaint.ID = ''1'', Title = ''mine'', Summary = [], Severity = 0,
          Resolved = False, Complaint.SecretCode = ''admin''\<rparr>]\<rparr>
   \<and> fst (getAllComplaintsForAdminHandler [''admin'']
        [[JObject [(''secretCode'', JString ''admin'')]]]
        (serveAll
          [SubmitComplaint [[JObject [(''title'', JString ''mine''),
                                      (''secretCode'', JString ''admin'')]]]]
          (snd (registerHandler
            [[JObject [(''secretCode'', JString ''admin''), (''name'', JString ''Eve'')]]]
            emptyStore)))) =
     \<lparr>status = 200, payload = ComplaintsBody
        [\<lparr>Complaint.ID = ''1'', Title = ''mine'', Summary = [], Severity = 0,
          Resolved = False, Complaint.SecretCode = ''admin''\<rparr>]\<rparr>
   \<and> set [\<lparr>Complaint.ID = ''1'', Title = ''mine'', Summary = [], Severity = 0,
          Resolved = False, Complaint.SecretCode = ''admin''\<rparr>]
       \<subseteq> set [\<lparr>Complaint.ID = ''1'', Title = ''mine'', Summary = [], Severity = 0,
          Resolved = False, Complaint.SecretCode = ''admin''\<rparr>]"
proof -
  let ?r = "[[JObject [(''secretCode'', JString ''admin''), (''name'', JString ''Eve'')]]]"
  let ?u = "\<lparr>User.ID = [], User.SecretCode = ''admin'', Name = ''Eve'', Email = [],
     Complaints = []\<rparr>"
  let ?q = "[[JObject [(''secretCode'', JString ''admin'')]]]"
  let ?calls = "[SubmitComplaint [[JObject [(''title'', JString ''mine''),
                                      (''secretCode'', JString ''admin'')]]]]"
  let ?c = "\<lparr>Complaint.ID = ''1'', Title = ''mine'', Summary = [], Severity = 0,
          Resolved = False, Complaint.SecretCode = ''admin''\<rparr>"
  let ?s2 = "serveAll ?calls (snd (registerHandler ?r emptyStore))"
  have dec: "fst (Decode intoUser zeroUser ?r) = Inr ?u" by code_simp
  have code: "User.SecretCode ?u = ''admin''" by simp
  have free: "fmlookup (users emptyStore) ''admin'' = None" by (simp add: emptyStore_def)
  have q: "fst (Decode intoCredentials [] ?q) = Inr ''admin''" by code_simp
  have order: "iterationOrder [''admin''] (users ?s2)" by code_simp
  have id: "generateUniqueID emptyStore = ''1''" by code_simp
  note admin = register_admin_secret_code [OF dec code free, unfolded id]
  from admin have reg: "fst (registerHandler ?r emptyStore) =
      \<lparr>status = 200, payload = UserBody (?u\<lparr>User.ID := ''1'', Complaints := []\<rparr>)\<rparr>"
    by simp
  from admin q have login: "fst (loginHandler ?q (snd (registerHandler ?r emptyStore))) =
      \<lparr>status = 200, payload = UserBody (?u\<lparr>User.ID := ''1'', Complaints := []\<rparr>)\<rparr>"
    by blast
  from admin order q obtain mine every where
    mine: "fmlookup (users ?s2) ''admin'' = Some (?u\<lparr>User.ID := ''1'', Complaints := mine\<rparr>)"
    and every: "fst (getAllComplaintsForAdminHandler [''admin''] ?q ?s2) =
        \<lparr>status = 200, payload = ComplaintsBody every\<rparr>"
    and included: "set mine \<subseteq> set every"
    by blast
  have "fmlookup (users ?s2) ''admin'' =
     Some \<lparr>User.ID = ''1'', User.SecretCode = ''admin'', Name = ''Eve'', Email = [],
        Complaints = [?c]\<rparr>"
    by code_simp
  with mine have mine_is: "mine = [?c]"
    by (simp del: serveAll.simps)
  have "fst (getAllComplaintsForAdminHandler [''admin''] ?q ?s2) =
     \<lparr>status = 200, payload = ComplaintsBody [?c]\<rparr>"
    by code_simp
  with every have every_is: "every = [?c]"
    by (simp del: serveAll.simps)
  from dec free reg q login order mine every included show ?thesis
    unfolding mine_is every_is
    by (simp only: User.simps Complaint.simps simp_thms)
qed

section \<open>Registering a secret code twice\<close>

text \<open>
  C5: a register call whose secret code keys a user of the store is answered 400 "Secret
  code already in use" and leaves the store as it was. In particular, after a registration
  with that secret code has succeeded, and whatever requests have been served since, a
  second register call with the same secret code fails so, and the users table still holds
  under that code the record of the first registration (with the complaints that user has
  submitted since), not the one of the second call.
\<close>

theorem register_duplicate_secret_code:
  assumes "fst (Decode intoUser zeroUser r2) = Inr u2"
  shows "(fmlookup (users s) (User.SecretCode u2) = Some x
            \<longrightarrow> registerHandler r2 s =
                  (\<lparr>status = 400, payload = ErrorBody (Text ''Secret code already in use'')\<rparr>, s))
         \<and> (fst (Decode intoUser zeroUser r1) = Inr u1
             \<and> status (fst (registerHandler r1 s0)) = 200
             \<and> User.SecretCode u2 = User.SecretCode u1
            \<longrightarrow> registerHandler r2 (serveAll between (snd (registerHandler r1 s0))) =
                  (\<lparr>status = 400, payload = ErrorBody (Text ''Secret code already in use'')\<rparr>,
                   serveAll between (snd (registerHandler r1 s0)))
                \<and> (\<exists>added.
                      fmlookup (users (serveAll between (snd (registerHandler r1 s0))))
                        (User.SecretCode u1) =
                      Some (u1\<lparr>User.ID := generateUniqueID s0, Complaints := added\<rparr>)))"
proof (intro conjI impI)
  assume "fmlookup (users s) (User.SecretCode u2) = Some x"
  with assms show "registerHandler r2 s =
      (\<lparr>status = 400, payload = ErrorBody (Text ''Secret code already in use'')\<rparr>, s)"
    by (simp add: registerHandler_existing)
next
  assume first: "fst (Decode intoUser zeroUser r1) = Inr u1
             \<and> status (fst (registerHandler r1 s0)) = 200
             \<and> User.SecretCode u2 = User.SecretCode u1"
  let ?s1 = "snd (registerHandler r1 s0)"
  let ?s2 = "serveAll between ?s1"
  let ?new = "u1\<lparr>User.ID := generateUniqueID s0, Complaints := []\<rparr>"
  from first have dec1: "fst (Decode intoUser zeroUser r1) = Inr u1"
    and ok: "status (fst (registerHandler r1 s0)) = 200"
    and same: "User.SecretCode u2 = User.SecretCode u1"
    by simp_all
  have stored: "fmlookup (users ?s1) (User.SecretCode u1) = Some ?new"
  proof (cases "fmlookup (users s0) (User.SecretCode u1)")
    case None
    from registerHandler_new [OF dec1 None] show ?thesis
      by simp
  next
    case (Some y)
    from registerHandler_existing [OF dec1 Some] ok show ?thesis
      by simp
  qed
  from serveAll_user_kept [OF stored, of between] obtain added where
    kept: "fmlookup (users ?s2) (User.SecretCode u1) =
        Some (u1\<lparr>User.ID := generateUniqueID s0, Complaints := added\<rparr>)"
    by auto
  with same have "fmlookup (users ?s2) (User.SecretCode u2) =
        Some (u1\<lparr>User.ID := generateUniqueID s0, Complaints := added\<rparr>)"
    by simp
  from registerHandler_existing [OF assms this]
  show "registerHandler r2 ?s2 =
      (\<lparr>status = 400, payload = ErrorBody (Text ''Secret code already in use'')\<rparr>, ?s2)"
    by simp
  from kept show "\<exists>added. fmlookup (users ?s2) (User.SecretCode u1) =
        Some (u1\<lparr>User.ID := generateUniqueID s0, Complaints := added\<rparr>)"
    by blast
qed

theorem register_duplicate_secret_code_witness:
  "fst (Decode intoUser zeroUser
          [[JObject [(''secretCode'', JString ''c1''), (''name'', JString ''B'')]]]) =
     Inr \<lparr>User.ID = [], User.SecretCode = ''c1'', Name = ''B'', Email = [], Complaints = []\<rparr>
   \<and> fst (Decode intoUser zeroUser
          [[JObject [(''secretCode'', JString ''c1''), (''name'', JString ''A''),
                     (''email'', JString ''a@x'')]]]) =
     Inr \<lparr>User.ID = [], User.SecretCode = ''c1'', Name = ''A'', Email = ''a@x'', Complaints = []\<rparr>
   \<and> status (fst (registerHandler
          [[JObject [(''secretCode'', JString ''c1''), (''name'', JString ''A''),
                     (''email'', JString ''a@x'')]]] emptyStore)) = 200
   \<and> fmlookup (users (serveAll
          [SubmitComplaint [[JObject [(''title'', JString ''t''), (''secretCode'', JString ''c1'')]]],
           Login [[JObject [(''secretCode'', JString ''c1'')]]]]
          (snd (registerHandler
            [[JObject [(''secretCode'', JString ''c1''), (''name'', JString ''A''),
                       (''email'', JString ''a@x'')]]] emptyStore)))) ''c1'' =
     Some \<lparr>User.ID = ''1'', User.SecretCode = ''c1'', Name = ''A'', Email = ''a@x'',
        Complaints = [\<lparr>Complaint.ID = ''1'', Title = ''t'', Summary = [], Severity = 0,
          Resolved = False, Complaint.SecretCode = ''c1''\<rparr>]\<rparr>
   \<and> registerHandler [[JObject [(''secretCode'', JString ''c1''), (''name'', JString ''B'')]]]
        (serveAll
          [SubmitComplaint [[JObject [(''title'', JString ''t''), (''secretCode'', JString ''c1'')]]],
           Login [[JObject [(''secretCode'', JString ''c1'')]]]]
          (snd (registerHandler
            [[JObject [(''secretCode'', JString ''c1''), (''name'', JString ''A''),
                       (''email'', JString ''a@x'')]]] emptyStore))) =
     (\<lparr>status = 400, payload = ErrorBody (Text ''Secret code already in use'')\<rparr>,
      serveAll
          [SubmitComplaint [[JObject [(''title'', JString ''t''), (''secretCode'', JString ''c1'')]]],
           Login [[JObject [(''secretCode'', JString ''c1'')]]]]
          (snd (registerHandler
            [[JObject [(''secretCode'', JString ''c1''), (''name'', JString ''A''),
                       (''email'', JString ''a@x'')]]] emptyStore)))"
proof -
  let ?r1 = "[[JObject [(''secretCode'', JString ''c1''), (''name'', JString ''A''),
                     (''email'', JString ''a@x'')]]]"
  let ?u1 = "\<lparr>User.ID = [], User.SecretCode = ''c1'', Name = ''A'', Email = ''a@x'',
     Complaints = []\<rparr>"
  let ?r2 = "[[JObject [(''secretCode'', JString ''c1''), (''name'', JString ''B'')]]]"
  let ?u2 = "\<lparr>User.ID = [], User.SecretCode = ''c1'', Name = ''B'', Email = [], Complaints = []\<rparr>"
  let ?between = "[SubmitComplaint [[JObject [(''title'', JString ''t''),
                                      (''secretCode'', JString ''c1'')]]],
           Login [[JObject [(''secretCode'', JString ''c1'')]]]]"
  let ?s2 = "serveAll ?between (snd (registerHandler ?r1 emptyStore))"
  let ?kept = "\<lparr>User.ID = ''1'', User.SecretCode = ''c1'', Name = ''A'', Email = ''a@x'',
        Complaints = [\<lparr>Complaint.ID = ''1'', Title = ''t'', Summary = [], Severity = 0,
          Resolved = False, Complaint.SecretCode = ''c1''\<rparr>]\<rparr>"
  have d2: "fst (Decode intoUser zeroUser ?r2) = Inr ?u2" by code_simp
  have d1: "fst (Decode intoUser zeroUser ?r1) = Inr ?u1" by code_simp
  have ok: "status (fst (registerHandler ?r1 emptyStore)) = 200" by code_simp
  have same: "User.SecretCode ?u2 = User.SecretCode ?u1" by simp
  have kept: "fmlookup (users ?s2) ''c1'' = Some ?kept" by code_simp
  then have keyed: "fmlookup (users ?s2) (User.SecretCode ?u2) = Some ?kept"
    by (simp only: User.simps)
  note dup = register_duplicate_secret_code [OF d2, of ?s2 ?kept ?r1 ?u1 emptyStore ?between]
  from dup keyed have direct: "registerHandler ?r2 ?s2 =
      (\<lparr>status = 400, payload = ErrorBody (Text ''Secret code already in use'')\<rparr>, ?s2)"
    by blast
  from dup d1 ok same have "registerHandler ?r2 ?s2 =
      (\<lparr>status = 400, payload = ErrorBody (Text ''Secret code already in use'')\<rparr>, ?s2)"
    by blast
  from d2 d1 ok kept this show ?thesis
    by (intro conjI)
qed

section \<open>The resolved flag of a submitted complaint\<close>

text \<open>
  \<^verbatim>\<open>submitComplaintHandler\<close> stores the decoded complaint with a new ID and nothing
  else changed: the flag \<^verbatim>\<open>Resolved\<close> is the one the decoder has left. Each member
  of the payload whose key selects \<^verbatim>\<open>resolved\<close> and whose value is not
  \<^verbatim>\<open>null\<close> sets the flag, so the last of them decides.
\<close>

lemma complaint_field_names:
  "foldName ''id'' \<noteq> foldName ''resolved''"
  "foldName ''title'' \<noteq> foldName ''resolved''"
  "foldName ''summary'' \<noteq> foldName ''resolved''"
  "foldName ''severity'' \<noteq> foldName ''resolved''"
  by code_simp+

lemma complaintField_Resolved:
  assumes "complaintField k v c = Inr c'"
  shows "Resolved c' =
           (if foldName k = foldName ''resolved'' \<and> v \<noteq> JNull then v = JBool True
            else Resolved c)"
proof (cases "foldName k = foldName ''resolved''")
  case True
  with assms complaint_field_names show ?thesis
    by (cases v) (auto simp: complaintField_def Let_def andThen_def intoBool_def)
next
  case False
  with assms show ?thesis
    by (auto simp: complaintField_def Let_def andThen_def intoString_def intoInt_def
        split: if_splits sum.splits json.splits)
qed

lemma objectInto_complaint_Resolved:
  assumes "objectInto complaintField kvs c = Inr c'"
  shows "Resolved c' =
           (let set_it = filter (\<lambda>(k, v). foldName k = foldName ''resolved'' \<and> v \<noteq> JNull) kvs
            in if set_it = [] then Resolved c else snd (last set_it) = JBool True)"
  using assms
proof (induction kvs arbitrary: c)
  case Nil
  then show ?case by simp
next
  case (Cons kv kvs)
  obtain k v where kv: "kv = (k, v)" by (cases kv)
  from Cons.prems kv obtain c1 where
    c1: "complaintField k v c = Inr c1" and rest: "objectInto complaintField kvs c1 = Inr c'"
    by (cases "complaintField k v c") (simp_all add: andThen_def)
  from Cons.IH [OF rest] complaintField_Resolved [OF c1] kv show ?case
    by (simp add: Let_def)
qed

text \<open>
  A payload with \<^verbatim>\<open>"resolved": true\<close> is stored as sent, and viewComplaint on the
  assigned ID shows the complaint resolved.
\<close>

theorem submitComplaint_view_resolved_counterexample:
  "status (fst (submitComplaintHandler
      [[JObject [(''title'', JString ''t''), (''resolved'', JBool True),
                 (''SecretCode'', JString ''c1'')]]]
      \<lparr>users = fmupd ''c1'' \<lparr>User.ID = ''1'', User.SecretCode = ''c1'', Name = ''A'',
                  Email = ''a@x'', Complaints = []\<rparr> fmempty,
       complaints = fmempty\<rparr>)) = 201
   \<and> fst (viewComplaintHandler [[JObject [(''id'', JString ''1'')]]]
        (snd (submitComplaintHandler
          [[JObject [(''title'', JString ''t''), (''resolved'', JBool True),
                     (''SecretCode'', JString ''c1'')]]]
          \<lparr>users = fmupd ''c1'' \<lparr>User.ID = ''1'', User.SecretCode = ''c1'', Name = ''A'',
                      Email = ''a@x'', Complaints = []\<rparr> fmempty,
           complaints = fmempty\<rparr>))) =
     \<lparr>status = 200,
      payload = ComplaintBody \<lparr>Complaint.ID = ''1'', Title = ''t'', Summary = [], Severity = 0,
                  Resolved = True, Complaint.SecretCode = ''c1''\<rparr>\<rparr>"
  by code_simp

text \<open>
  C4 (amended): after a successful submission (status 201), viewComplaint on the assigned
  ID answers 200 with the decoded payload under that ID. Its resolved field is true exactly
  when the payload is a JSON object in which the last member that has a key selecting
  \<^verbatim>\<open>resolved\<close> and a value other than \<^verbatim>\<open>null\<close> is \<^verbatim>\<open>true\<close>; in every other
  case (no such member, the last one \<^verbatim>\<open>false\<close>, or the payload \<^verbatim>\<open>null\<close>) it is
  false.
\<close>

theorem submitComplaint_view_resolved:
  assumes "fst (Decode intoComplaint zeroComplaint r) = Inr c"
    and "fmlookup (users s) (Complaint.SecretCode c) = Some owner"
    and "fst (Decode intoID [] q) = Inr (generateUniqueID s)"
  shows "status (fst (submitComplaintHandler r s)) = 201
         \<and> fst (viewComplaintHandler q (snd (submitComplaintHandler r s))) =
             \<lparr>status = 200, payload = ComplaintBody (c\<lparr>Complaint.ID := generateUniqueID s\<rparr>)\<rparr>
         \<and> (Resolved (c\<lparr>Complaint.ID := generateUniqueID s\<rparr>) \<longleftrightarrow>
              (\<exists>kvs rest. readValue r = (Some (JObject kvs), rest)
                 \<and> filter (\<lambda>(k, v). foldName k = foldName ''resolved'' \<and> v \<noteq> JNull) kvs \<noteq> []
                 \<and> snd (last (filter (\<lambda>(k, v). foldName k = foldName ''resolved'' \<and> v \<noteq> JNull)
                              kvs)) = JBool True))"
proof -
  let ?s' = "snd (submitComplaintHandler r s)"
  let ?c = "c\<lparr>Complaint.ID := generateUniqueID s\<rparr>"
  let ?sets = "\<lambda>(k, v). foldName k = foldName ''resolved'' \<and> v \<noteq> JNull"
  note submit = submitComplaintHandler_known [OF assms(1) assms(2)]
  have created: "status (fst (submitComplaintHandler r s)) = 201"
    by (simp add: submit)
  have stored: "fmlookup (complaints ?s') (generateUniqueID s) = Some ?c"
    by (simp add: submit)
  have owner: "fmlookup (users ?s') (Complaint.SecretCode ?c) =
      Some (owner\<lparr>Complaints := Complaints owner @ [?c]\<rparr>)"
    by (simp add: submit)
  have view: "fst (viewComplaintHandler q ?s') = \<lparr>status = 200, payload = ComplaintBody ?c\<rparr>"
    by (simp add: viewComplaintHandler_found [OF assms(3) stored owner])
  obtain v rest where rv: "readValue r = (Some v, rest)" and into: "intoComplaint v zeroComplaint = Inr c"
    using assms(1) by (cases "readValue r") (auto simp: Decode_def split: option.splits)
  have zero: "\<not> Resolved zeroComplaint"
    by (simp add: zeroComplaint_def)
  have flag: "Resolved c \<longleftrightarrow>
      (\<exists>kvs rest. readValue r = (Some (JObject kvs), rest)
         \<and> filter ?sets kvs \<noteq> [] \<and> snd (last (filter ?sets kvs)) = JBool True)"
  proof (cases v)
    case JNull
    with into have "c = zeroComplaint"
      by (simp add: intoComplaint_def structInto_def)
    with zero rv JNull show ?thesis
      by simp
  next
    case (JObject kvs)
    with into have "objectInto complaintField kvs zeroComplaint = Inr c"
      by (simp add: intoComplaint_def structInto_def)
    from objectInto_complaint_Resolved [OF this] zero
    have "Resolved c \<longleftrightarrow> filter ?sets kvs \<noteq> [] \<and> snd (last (filter ?sets kvs)) = JBool True"
      by (simp add: Let_def)
    with rv JObject show ?thesis
      by simp
  qed (use into in \<open>simp_all add: intoComplaint_def structInto_def\<close>)
  from created view flag show ?thesis
    by simp
qed

theorem submitComplaint_view_resolved_witness:
  "fst (Decode intoComplaint zeroComplaint
      [[JObject [(''resolved'', JBool True), (''RESOLVED'', JBool False),
                 (''secretCode'', JString ''c1'')]]]) =
     Inr \<lparr>Complaint.ID = [], Title = [], Summary = [], Severity = 0, Resolved = False,
          Complaint.SecretCode = ''c1''\<rparr>
   \<and> fmlookup (users \<lparr>users = fmupd ''c1'' \<lparr>User.ID = ''1'', User.SecretCode = ''c1'',
                  Name = ''A'', Email = ''a@x'', Complaints = []\<rparr> fmempty,
                complaints = fmempty\<rparr>) ''c1'' =
     Some \<lparr>User.ID = ''1'', User.SecretCode = ''c1'', Name = ''A'', Email = ''a@x'',
           Complaints = []\<rparr>
   \<and> fst (Decode intoID [] [[JObject [(''id'', JString ''1'')]]]) = Inr ''1''
   \<and> status (fst (submitComplaintHandler
        [[JObject [(''resolved'', JBool True), (''RESOLVED'', JBool False),
                   (''secretCode'', JString ''c1'')]]]
        \<lparr>users = fmupd ''c1'' \<lparr>User.ID = ''1'', User.SecretCode = ''c1'',
                  Name = ''A'', Email = ''a@x'', Complaints = []\<rparr> fmempty,
         complaints = fmempty\<rparr>)) = 201
   \<and> fst (viewComplaintHandler [[JObject [(''id'', JString ''1'')]]]
        (snd (submitComplaintHandler
          [[JObject [(''resolved'', JBool True), (''RESOLVED'', JBool False),
                     (''secretCode'', JString ''c1'')]]]
          \<lparr>users = fmupd ''c1'' \<lparr>User.ID = ''1'', User.SecretCode = ''c1'',
                  Name = ''A'', Email = ''a@x'', Complaints = []\<rparr> fmempty,
           complaints = fmempty\<rparr>))) =
     \<lparr>status = 200,
      payload = ComplaintBody \<lparr>Complaint.ID = ''1'', Title = [], Summary = [], Severity = 0,
                  Resolved = False, Complaint.SecretCode = ''c1''\<rparr>\<rparr>
   \<and> snd (last (filter (\<lambda>(k, v). foldName k = foldName ''resolved'' \<and> v \<noteq> JNull)
        [(''resolved'', JBool True), (''RESOLVED'', JBool False),
         (''secretCode'', JString ''c1'')])) = JBool False
   \<and> fst (Decode intoComplaint zeroComplaint
      [[JObject [(''title'', JString ''t''), (''resolved'', JBool True),
                 (''Resolved'', JNull), (''secretCode'', JString ''c1'')]]]) =
     Inr \<lparr>Complaint.ID = [], Title = ''t'', Summary = [], Severity = 0, Resolved = True,
          Complaint.SecretCode = ''c1''\<rparr>
   \<and> fst (viewComplaintHandler [[JObject [(''id'', JString ''1'')]]]
        (snd (submitComplaintHandler
          [[JObject [(''title'', JString ''t''), (''resolved'', JBool True),
                     (''Resolved'', JNull), (''secretCode'', JString ''c1'')]]]
          \<lparr>users = fmupd ''c1'' \<lparr>User.ID = ''1'', User.SecretCode = ''c1'',
                  Name = ''A'', Email = ''a@x'', Complaints = []\<rparr> fmempty,
           complaints = fmempty\<rparr>))) =
     \<lparr>status = 200,
      payload = ComplaintBody \<lparr>Complaint.ID = ''1'', Title = ''t'', Summary = [], Severity = 0,
                  Resolved = True, Complaint.SecretCode = ''c1''\<rparr>\<rparr>
   \<and> snd (last (filter (\<lambda>(k, v). foldName k = foldName ''resolved'' \<and> v \<noteq> JNull)
        [(''title'', JString ''t''), (''resolved'', JBool True),
         (''Resolved'', JNull), (''secretCode'', JString ''c1'')])) = JBool True"
proof -
  let ?s = "\<lparr>users = fmupd ''c1'' \<lparr>User.ID = ''1'', User.SecretCode = ''c1'',
                  Name = ''A'', Email = ''a@x'', Complaints = []\<rparr> fmempty,
             complaints = fmempty\<rparr>"
  let ?r = "[[JObject [(''resolved'', JBool True), (''RESOLVED'', JBool False),
                 (''secretCode'', JString ''c1'')]]]"
  let ?c = "\<lparr>Complaint.ID = [], Title = [], Summary = [], Severity = 0, Resolved = False,
          Complaint.SecretCode = ''c1''\<rparr>"
  let ?r' = "[[JObject [(''title'', JString ''t''), (''resolved'', JBool True),
                 (''Resolved'', JNull), (''secretCode'', JString ''c1'')]]]"
  let ?c' = "\<lparr>Complaint.ID = [], Title = ''t'', Summary = [], Severity = 0, Resolved = True,
          Complaint.SecretCode = ''c1''\<rparr>"
  let ?owner = "\<lparr>User.ID = ''1'', User.SecretCode = ''c1'', Name = ''A'', Email = ''a@x'',
           Complaints = []\<rparr>"
  let ?q = "[[JObject [(''id'', JString ''1'')]]]"
  have dec: "fst (Decode intoComplaint zeroComplaint ?r) = Inr ?c" by code_simp
  have dec': "fst (Decode intoComplaint zeroComplaint ?r') = Inr ?c'" by code_simp
  have owner: "fmlookup (users ?s) (Complaint.SecretCode ?c) = Some ?owner" by simp
  have owner': "fmlookup (users ?s) (Complaint.SecretCode ?c') = Some ?owner" by simp
  have listed: "fmlookup (users ?s) ''c1'' = Some ?owner" by simp
  have next_id: "generateUniqueID ?s = ''1''" by code_simp
  have q1: "fst (Decode intoID [] ?q) = Inr ''1''" by code_simp
  have q: "fst (Decode intoID [] ?q) = Inr (generateUniqueID ?s)"
    unfolding next_id by (fact q1)
  have last_false: "snd (last (filter (\<lambda>(k, v). foldName k = foldName ''resolved'' \<and> v \<noteq> JNull)
        [(''resolved'', JBool True), (''RESOLVED'', JBool False),
         (''secretCode'', JString ''c1'')])) = JBool False"
    by code_simp
  have last_true: "snd (last (filter (\<lambda>(k, v). foldName k = foldName ''resolved'' \<and> v \<noteq> JNull)
        [(''title'', JString ''t''), (''resolved'', JBool True),
         (''Resolved'', JNull), (''secretCode'', JString ''c1'')])) = JBool True"
    by code_simp
  note overridden = submitComplaint_view_resolved [OF dec owner q, unfolded next_id]
  note kept = submitComplaint_view_resolved [OF dec' owner' q, unfolded next_id]
  from overridden have created: "status (fst (submitComplaintHandler ?r ?s)) = 201"
    by (rule conjunct1)
  from overridden have "fst (viewComplaintHandler ?q (snd (submitComplaintHandler ?r ?s))) =
      \<lparr>status = 200, payload = ComplaintBody (?c\<lparr>Complaint.ID := ''1''\<rparr>)\<rparr>"
    by (rule conjunct1 [OF conjunct2])
  then have view: "fst (viewComplaintHandler ?q (snd (submitComplaintHandler ?r ?s))) =
      \<lparr>status = 200, payload = ComplaintBody \<lparr>Complaint.ID = ''1'', Title = [], Summary = [],
         Severity = 0, Resolved = False, Complaint.SecretCode = ''c1''\<rparr>\<rparr>"
    by (simp only: Complaint.simps)
  from kept have "fst (viewComplaintHandler ?q (snd (submitComplaintHandler ?r' ?s))) =
      \<lparr>status = 200, payload = ComplaintBody (?c'\<lparr>Complaint.ID := ''1''\<rparr>)\<rparr>"
    by (rule conjunct1 [OF conjunct2])
  then have view': "fst (viewComplaintHandler ?q (snd (submitComplaintHandler ?r' ?s))) =
      \<lparr>status = 200, payload = ComplaintBody \<lparr>Complaint.ID = ''1'', Title = ''t'', Summary = [],
         Severity = 0, Resolved = True, Complaint.SecretCode = ''c1''\<rparr>\<rparr>"
    by (simp only: Complaint.simps)
  from dec listed q1 created view last_false dec' view' last_true show ?thesis
    by (intro conjI)
qed

section \<open>Resolving a complaint leaves the copy of its owner as it was\<close>

lemma getAllComplaintsForUserHandler_found:
  assumes "fst (Decode intoCredentials [] q) = Inr code"
    and "fmlookup (users s) code = Some u"
  shows "getAllComplaintsForUserHandler q s =
           (\<lparr>status = StatusOK, payload = ComplaintsBody (Complaints u)\<rparr>, s)"
  using assms
  by (cases "Decode intoCredentials [] q") (simp add: getAllComplaintsForUserHandler_def)

lemma getAllComplaintsForUserHandler_users:
  assumes "users s' = users s"
  shows "fst (getAllComplaintsForUserHandler q s') = fst (getAllComplaintsForUserHandler q s)"
  using assms
  by (cases "Decode intoCredentials [] q")
    (simp add: getAllComplaintsForUserHandler_def split: sum.splits option.splits)

text \<open>
  A complaint submitted with \<^verbatim>\<open>"resolved": true\<close> has a copy that shows it resolved:
  after resolveComplaint has succeeded on it, getAllComplaintsForUser for its owner shows
  \<^verbatim>\<open>resolved = true\<close>, in a store reached from the empty one.
\<close>

theorem resolveComplaint_stale_copy_counterexample:
  "reachable (snd (serve (SubmitComplaint
       [[JObject [(''title'', JString ''t''), (''resolved'', JBool True),
                  (''secretCode'', JString ''c1'')]]])
     (snd (serve (Register
       [[JObject [(''secretCode'', JString ''c1''), (''name'', JString ''A'')]]]) emptyStore))))
   \<and> status (fst (resolveComplaintHandler
        [[JObject [(''id'', JString ''1'')]], [JObject [(''secretCode'', JString ''admin'')]]]
        (snd (serve (SubmitComplaint
           [[JObject [(''title'', JString ''t''), (''resolved'', JBool True),
                      (''secretCode'', JString ''c1'')]]])
         (snd (serve (Register
           [[JObject [(''secretCode'', JString ''c1''), (''name'', JString ''A'')]]])
           emptyStore)))))) = 204
   \<and> fst (getAllComplaintsForUserHandler [[JObject [(''secretCode'', JString ''c1'')]]]
        (snd (resolveComplaintHandler
          [[JObject [(''id'', JString ''1'')]], [JObject [(''secretCode'', JString ''admin'')]]]
          (snd (serve (SubmitComplaint
             [[JObject [(''title'', JString ''t''), (''resolved'', JBool True),
                        (''secretCode'', JString ''c1'')]]])
           (snd (serve (Register
             [[JObject [(''secretCode'', JString ''c1''), (''name'', JString ''A'')]]])
             emptyStore))))))) =
     \<lparr>status = 200, payload = ComplaintsBody [\<lparr>Complaint.ID = ''1'', Title = ''t'',
        Summary = [], Severity = 0, Resolved = True, Complaint.SecretCode = ''c1''\<rparr>]\<rparr>"
proof (intro conjI)
  show "reachable (snd (serve (SubmitComplaint
       [[JObject [(''title'', JString ''t''), (''resolved'', JBool True),
                  (''secretCode'', JString ''c1'')]]])
     (snd (serve (Register
       [[JObject [(''secretCode'', JString ''c1''), (''name'', JString ''A'')]]]) emptyStore))))"
    by (intro reachable.intros)
qed code_simp+

text \<open>
  C2 (amended): when resolveComplaint succeeds (status 204) on a complaint ID, the entry
  under that ID in the complaints table gets \<^verbatim>\<open>resolved = true\<close> and nothing else
  changes: the users table, with the copies of complaints it embeds, is the same. So
  getAllComplaintsForUser answers every request as before the call, for a user with the
  embedded list that user had before the call; the copy of a complaint is there as it was
  made at submission, with the resolved value of the submitted payload (false unless the
  payload made it true), whatever requests were served in between. viewComplaint on the
  resolved ID shows the complaint with \<^verbatim>\<open>resolved = true\<close>, in every store the
  server can reach (and in any store where the owner of the complaint is a user).
\<close>

theorem resolveComplaint_stale_copy:
  assumes "status (fst (resolveComplaintHandler r s)) = 204"
  shows "\<exists>i c. fst (Decode intoID [] r) = Inr i
           \<and> fmlookup (complaints s) i = Some c
           \<and> complaints (snd (resolveComplaintHandler r s)) =
               fmupd i (c\<lparr>Resolved := True\<rparr>) (complaints s)
           \<and> users (snd (resolveComplaintHandler r s)) = users s
           \<and> (\<forall>q. fst (getAllComplaintsForUserHandler q (snd (resolveComplaintHandler r s))) =
                    fst (getAllComplaintsForUserHandler q s))
           \<and> (\<forall>q code owner. fst (Decode intoCredentials [] q) = Inr code
                 \<and> fmlookup (users s) code = Some owner
                 \<longrightarrow> fst (getAllComplaintsForUserHandler q (snd (resolveComplaintHandler r s))) =
                       \<lparr>status = 200, payload = ComplaintsBody (Complaints owner)\<rparr>)
           \<and> (\<forall>p d s0 owner0 between q.
                 fst (Decode intoComplaint zeroComplaint p) = Inr d
                 \<and> fmlookup (users s0) (Complaint.SecretCode d) = Some owner0
                 \<and> s = serveAll between (snd (submitComplaintHandler p s0))
                 \<and> fst (Decode intoCredentials [] q) = Inr (Complaint.SecretCode d)
                 \<longrightarrow> (\<exists>before after.
                       fst (getAllComplaintsForUserHandler q (snd (resolveComplaintHandler r s))) =
                         \<lparr>status = 200,
                          payload = ComplaintsBody
                            (before @ d\<lparr>Complaint.ID := generateUniqueID s0\<rparr> # after)\<rparr>))
           \<and> (\<forall>q owner. fst (Decode intoID [] q) = Inr i
                 \<and> fmlookup (users s) (Complaint.SecretCode c) = Some owner
                 \<longrightarrow> fst (viewComplaintHandler q (snd (resolveComplaintHandler r s))) =
                       \<lparr>status = 200, payload = ComplaintBody (c\<lparr>Resolved := True\<rparr>)\<rparr>)
           \<and> (\<forall>q. reachable s \<and> fst (Decode intoID [] q) = Inr i
                 \<longrightarrow> fst (viewComplaintHandler q (snd (resolveComplaintHandler r s))) =
                       \<lparr>status = 200, payload = ComplaintBody (c\<lparr>Resolved := True\<rparr>)\<rparr>)"
proof (cases rule: resolveComplaintHandler_cases [of r s])
  case refused
  with assms show ?thesis by simp
next
  case (resolved i r' c)
  let ?s' = "snd (resolveComplaintHandler r s)"
  have users_same: "users ?s' = users s"
    by (simp add: resolved(4))
  have entry: "fmlookup (complaints ?s') i = Some (c\<lparr>Resolved := True\<rparr>)"
    by (simp add: resolved(4))
  have first: "fst (Decode intoID [] r) = Inr i"
    by (simp add: resolved(1))
  have entry': "complaints ?s' = fmupd i (c\<lparr>Resolved := True\<rparr>) (complaints s)"
    by (simp add: resolved(4))
  have same_list: "fst (getAllComplaintsForUserHandler q ?s') =
      fst (getAllComplaintsForUserHandler q s)" for q
    by (intro getAllComplaintsForUserHandler_users users_same)
  have listed: "fst (getAllComplaintsForUserHandler q ?s') =
      \<lparr>status = 200, payload = ComplaintsBody (Complaints owner)\<rparr>"
    if "fst (Decode intoCredentials [] q) = Inr code" and "fmlookup (users s) code = Some owner"
    for q code owner
    using getAllComplaintsForUserHandler_found [OF that] by (simp add: same_list)
  have copy: "\<exists>before after. fst (getAllComplaintsForUserHandler q ?s') =
      \<lparr>status = 200,
       payload = ComplaintsBody (before @ d\<lparr>Complaint.ID := generateUniqueID s0\<rparr> # after)\<rparr>"
    if p: "fst (Decode intoComplaint zeroComplaint p) = Inr d"
      and owner0: "fmlookup (users s0) (Complaint.SecretCode d) = Some owner0"
      and s: "s = serveAll between (snd (submitComplaintHandler p s0))"
      and q: "fst (Decode intoCredentials [] q) = Inr (Complaint.SecretCode d)"
    for p d s0 owner0 between q
  proof -
    let ?d = "d\<lparr>Complaint.ID := generateUniqueID s0\<rparr>"
    let ?owner1 = "owner0\<lparr>Complaints := Complaints owner0 @ [?d]\<rparr>"
    have "fmlookup (users (snd (submitComplaintHandler p s0))) (Complaint.SecretCode d) =
        Some ?owner1"
      by (simp add: submitComplaintHandler_known [OF p owner0])
    from serveAll_user_kept [OF this, of between] s obtain added where
      "fmlookup (users s) (Complaint.SecretCode d) =
         Some (?owner1\<lparr>Complaints := Complaints ?owner1 @ added\<rparr>)"
      by auto
    from listed [OF q this]
    have "fst (getAllComplaintsForUserHandler q ?s') =
        \<lparr>status = 200, payload = ComplaintsBody (Complaints owner0 @ ?d # added)\<rparr>"
      by simp
    then show ?thesis by blast
  qed
  have view: "fst (viewComplaintHandler q ?s') =
      \<lparr>status = 200, payload = ComplaintBody (c\<lparr>Resolved := True\<rparr>)\<rparr>"
    if q: "fst (Decode intoID [] q) = Inr i"
      and owner: "fmlookup (users s) (Complaint.SecretCode c) = Some owner" for q owner
  proof -
    from owner users_same
    have "fmlookup (users ?s') (Complaint.SecretCode (c\<lparr>Resolved := True\<rparr>)) = Some owner"
      by simp
    from viewComplaintHandler_found [OF q entry this] show ?thesis
      by simp
  qed
  show ?thesis
  proof (rule exI [of _ i], rule exI [of _ c], intro conjI allI impI)
    show "fst (Decode intoID [] r) = Inr i" by (fact first)
    show "fmlookup (complaints s) i = Some c" by (fact resolved(3))
    show "complaints ?s' = fmupd i (c\<lparr>Resolved := True\<rparr>) (complaints s)" by (fact entry')
    show "users ?s' = users s" by (fact users_same)
    show "fst (getAllComplaintsForUserHandler q ?s') = fst (getAllComplaintsForUserHandler q s)"
      for q by (fact same_list)
    show "fst (getAllComplaintsForUserHandler q ?s') =
        \<lparr>status = 200, payload = ComplaintsBody (Complaints owner)\<rparr>"
      if "fst (Decode intoCredentials [] q) = Inr code \<and> fmlookup (users s) code = Some owner"
      for q code owner
      using that listed by blast
    show "\<exists>before after. fst (getAllComplaintsForUserHandler q ?s') =
        \<lparr>status = 200,
         payload = ComplaintsBody (before @ d\<lparr>Complaint.ID := generateUniqueID s0\<rparr> # after)\<rparr>"
      if "fst (Decode intoComplaint zeroComplaint p) = Inr d
          \<and> fmlookup (users s0) (Complaint.SecretCode d) = Some owner0
          \<and> s = serveAll between (snd (submitComplaintHandler p s0))
          \<and> fst (Decode intoCredentials [] q) = Inr (Complaint.SecretCode d)"
      for p d s0 owner0 between q
      using that copy by blast
    show "fst (viewComplaintHandler q ?s') =
        \<lparr>status = 200, payload = ComplaintBody (c\<lparr>Resolved := True\<rparr>)\<rparr>"
      if "fst (Decode intoID [] q) = Inr i
            \<and> fmlookup (users s) (Complaint.SecretCode c) = Some owner" for q owner
      using that view by blast
    show "fst (viewComplaintHandler q ?s') =
        \<lparr>status = 200, payload = ComplaintBody (c\<lparr>Resolved := True\<rparr>)\<rparr>"
      if "reachable s \<and> fst (Decode intoID [] q) = Inr i" for q
    proof -
      from that have "reachable s" and q: "fst (Decode intoID [] q) = Inr i"
        by simp_all
      from reachable_owned [OF this(1) resolved(3)] obtain owner where
        "fmlookup (users s) (Complaint.SecretCode c) = Some owner"
        by auto
      with q view show ?thesis
        by blast
    qed
  qed
qed

theorem resolveComplaint_stale_copy_witness:
  "reachable (serveAll [Login [[JObject [(''secretCode'', JString ''c1'')]]]]
        (snd (submitComplaintHandler
          [[JObject [(''title'', JString ''t''), (''severity'', JNumber 5),
                  (''secretCode'', JString ''c1'')]]]
          (snd (registerHandler [[JObject [(''secretCode'', JString ''c1''), (''name'', JString ''A'')]]] emptyStore)))))
   \<and> status (fst (resolveComplaintHandler
      [[JObject [(''id'', JString ''1'')]], [JObject [(''secretCode'', JString ''admin'')]]]
      (serveAll [Login [[JObject [(''secretCode'', JString ''c1'')]]]]
        (snd (submitComplaintHandler
          [[JObject [(''title'', JString ''t''), (''severity'', JNumber 5),
                  (''secretCode'', JString ''c1'')]]]
          (snd (registerHandler [[JObject [(''secretCode'', JString ''c1''), (''name'', JString ''A'')]]] emptyStore))))))) = 204
   \<and> fst (Decode intoComplaint zeroComplaint
        [[JObject [(''title'', JString ''t''), (''severity'', JNumber 5),
                  (''secretCode'', JString ''c1'')]]]) =
     Inr \<lparr>Complaint.ID = [], Title = ''t'', Summary = [], Severity = 5, Resolved = False,
          Complaint.SecretCode = ''c1''\<rparr>
   \<and> fmlookup (users (snd (registerHandler [[JObject [(''secretCode'', JString ''c1''), (''name'', JString ''A'')]]] emptyStore))) ''c1'' =
     Some \<lparr>User.ID = ''1'', User.SecretCode = ''c1'', Name = ''A'', Email = [],
           Complaints = []\<rparr>
   \<and> fst (Decode intoCredentials [] [[JObject [(''secretCode'', JString ''c1'')]]]) = Inr ''c1''
   \<and> fst (getAllComplaintsForUserHandler [[JObject [(''secretCode'', JString ''c1'')]]]
       (snd (resolveComplaintHandler
      [[JObject [(''id'', JString ''1'')]], [JObject [(''secretCode'', JString ''admin'')]]]
      (serveAll [Login [[JObject [(''secretCode'', JString ''c1'')]]]]
        (snd (submitComplaintHandler
          [[JObject [(''title'', JString ''t''), (''severity'', JNumber 5),
                  (''secretCode'', JString ''c1'')]]]
          (snd (registerHandler [[JObject [(''secretCode'', JString ''c1''), (''name'', JString ''A'')]]] emptyStore))))))))
     = \<lparr>status = 200, payload = ComplaintsBody [\<lparr>Complaint.ID = ''1'', Title = ''t'', Summary = [], Severity = 5, Resolved = False,
          Complaint.SecretCode = ''c1''\<rparr>]\<rparr>
   \<and> (\<exists>before after.
        fst (getAllComplaintsForUserHandler [[JObject [(''secretCode'', JString ''c1'')]]]
         (snd (resolveComplaintHandler
      [[JObject [(''id'', JString ''1'')]], [JObject [(''secretCode'', JString ''admin'')]]]
      (serveAll [Login [[JObject [(''secretCode'', JString ''c1'')]]]]
        (snd (submitComplaintHandler
          [[JObject [(''title'', JString ''t''), (''severity'', JNumber 5),
                  (''secretCode'', JString ''c1'')]]]
          (snd (registerHandler [[JObject [(''secretCode'', JString ''c1''), (''name'', JString ''A'')]]] emptyStore))))))))
       = \<lparr>status = 200, payload = ComplaintsBody (before @ \<lparr>Complaint.ID = ''1'', Title = ''t'', Summary = [], Severity = 5, Resolved = False,
          Complaint.SecretCode = ''c1''\<rparr> # after)\<rparr>)
   \<and> fst (Decode intoID [] [[JObject [(''id'', JString ''1'')]]]) = Inr ''1''
   \<and> fst (viewComplaintHandler [[JObject [(''id'', JString ''1'')]]]
       (snd (resolveComplaintHandler
      [[JObject [(''id'', JString ''1'')]], [JObject [(''secretCode'', JString ''admin'')]]]
      (serveAll [Login [[JObject [(''secretCode'', JString ''c1'')]]]]
        (snd (submitComplaintHandler
          [[JObject [(''title'', JString ''t''), (''severity'', JNumber 5),
                  (''secretCode'', JString ''c1'')]]]
          (snd (registerHandler [[JObject [(''secretCode'', JString ''c1''), (''name'', JString ''A'')]]] emptyStore))))))))
     = \<lparr>status = 200, payload = ComplaintBody \<lparr>Complaint.ID = ''1'', Title = ''t'', Summary = [], Severity = 5, Resolved = True,
          Complaint.SecretCode = ''c1''\<rparr>\<rparr>"
proof -
  let ?reg = "[[JObject [(''secretCode'', JString ''c1''), (''name'', JString ''A'')]]]"
  let ?p = "[[JObject [(''title'', JString ''t''), (''severity'', JNumber 5),
                  (''secretCode'', JString ''c1'')]]]"
  let ?q = "[[JObject [(''secretCode'', JString ''c1'')]]]"
  let ?r = "[[JObject [(''id'', JString ''1'')]], [JObject [(''secretCode'', JString ''admin'')]]]"
  let ?v = "[[JObject [(''id'', JString ''1'')]]]"
  let ?d = "\<lparr>Complaint.ID = [], Title = ''t'', Summary = [], Severity = 5, Resolved = False,
          Complaint.SecretCode = ''c1''\<rparr>"
  let ?copy = "\<lparr>Complaint.ID = ''1'', Title = ''t'', Summary = [], Severity = 5, Resolved = False,
          Complaint.SecretCode = ''c1''\<rparr>"
  let ?fresh = "\<lparr>User.ID = ''1'', User.SecretCode = ''c1'', Name = ''A'', Email = [],
           Complaints = []\<rparr>"
  let ?owner = "\<lparr>User.ID = ''1'', User.SecretCode = ''c1'', Name = ''A'', Email = [],
           Complaints = [?copy]\<rparr>"
  let ?init = "snd (registerHandler ?reg emptyStore)"
  let ?between = "[Login ?q]"
  let ?s = "serveAll ?between (snd (submitComplaintHandler ?p ?init))"
  let ?s' = "snd (resolveComplaintHandler ?r ?s)"
  have "reachable (snd (serve (Login ?q) (snd (serve (SubmitComplaint ?p)
      (snd (serve (Register ?reg) emptyStore))))))"
    by (intro reachable.intros)
  then have reach: "reachable ?s"
    by simp
  have ok: "status (fst (resolveComplaintHandler ?r ?s)) = 204" by code_simp
  have p: "fst (Decode intoComplaint zeroComplaint ?p) = Inr ?d" by code_simp
  have fresh: "fmlookup (users ?init) ''c1'' = Some ?fresh" by code_simp
  then have fresh': "fmlookup (users ?init) (Complaint.SecretCode ?d) = Some ?fresh"
    by (simp only: Complaint.simps)
  have q: "fst (Decode intoCredentials [] ?q) = Inr ''c1''" by code_simp
  then have q': "fst (Decode intoCredentials [] ?q) = Inr (Complaint.SecretCode ?d)"
    by (simp only: Complaint.simps)
  have v: "fst (Decode intoID [] ?v) = Inr ''1''" by code_simp
  have id: "fst (Decode intoID [] ?r) = Inr ''1''" by code_simp
  have id0: "generateUniqueID ?init = ''1''" by code_simp
  have owner: "fmlookup (users ?s) ''c1'' = Some ?owner" by code_simp
  have entry: "fmlookup (complaints ?s) ''1'' = Some ?copy" by code_simp
  from resolveComplaint_stale_copy [OF ok] obtain i c where
    i: "fst (Decode intoID [] ?r) = Inr i"
    and c: "fmlookup (complaints ?s) i = Some c"
    and listed: "\<forall>q code owner. fst (Decode intoCredentials [] q) = Inr code
                 \<and> fmlookup (users ?s) code = Some owner
                 \<longrightarrow> fst (getAllComplaintsForUserHandler q ?s') =
                       \<lparr>status = 200, payload = ComplaintsBody (Complaints owner)\<rparr>"
    and copy: "\<forall>p d s0 owner0 between q.
                 fst (Decode intoComplaint zeroComplaint p) = Inr d
                 \<and> fmlookup (users s0) (Complaint.SecretCode d) = Some owner0
                 \<and> ?s = serveAll between (snd (submitComplaintHandler p s0))
                 \<and> fst (Decode intoCredentials [] q) = Inr (Complaint.SecretCode d)
                 \<longrightarrow> (\<exists>before after.
                       fst (getAllComplaintsForUserHandler q ?s') =
                         \<lparr>status = 200,
                          payload = ComplaintsBody
                            (before @ d\<lparr>Complaint.ID := generateUniqueID s0\<rparr> # after)\<rparr>)"
    and view: "\<forall>q. reachable ?s \<and> fst (Decode intoID [] q) = Inr i
                 \<longrightarrow> fst (viewComplaintHandler q ?s') =
                       \<lparr>status = 200, payload = ComplaintBody (c\<lparr>Resolved := True\<rparr>)\<rparr>"
    by blast
  from i id have i1: "i = ''1''"
    by simp
  from c entry have c1: "c = ?copy"
    unfolding i1 by simp
  from listed q owner
  have "fst (getAllComplaintsForUserHandler ?q ?s') =
      \<lparr>status = 200, payload = ComplaintsBody (Complaints ?owner)\<rparr>"
    by blast
  then have shown: "fst (getAllComplaintsForUserHandler ?q ?s') =
      \<lparr>status = 200, payload = ComplaintsBody [?copy]\<rparr>"
    by (simp only: User.simps)
  from copy p fresh' q' refl [of ?s]
  have "\<exists>before after. fst (getAllComplaintsForUserHandler ?q ?s') =
      \<lparr>status = 200,
       payload = ComplaintsBody (before @ ?d\<lparr>Complaint.ID := generateUniqueID ?init\<rparr> # after)\<rparr>"
    by blast
  then have still: "\<exists>before after. fst (getAllComplaintsForUserHandler ?q ?s') =
      \<lparr>status = 200, payload = ComplaintsBody (before @ ?copy # after)\<rparr>"
    unfolding id0 by (simp only: Complaint.simps)
  from view reach v i1
  have "fst (viewComplaintHandler ?v ?s') =
      \<lparr>status = 200, payload = ComplaintBody (c\<lparr>Resolved := True\<rparr>)\<rparr>"
    by blast
  then have viewed: "fst (viewComplaintHandler ?v ?s') =
      \<lparr>status = 200, payload = ComplaintBody \<lparr>Complaint.ID = ''1'', Title = ''t'', Summary = [], Severity = 5, Resolved = True,
          Complaint.SecretCode = ''c1''\<rparr>\<rparr>"
    unfolding c1 by (simp only: Complaint.simps)
  from reach ok p fresh q shown still v viewed show ?thesis
    by (intro conjI)
qed

end
